theory Spec2Isabelle
  imports Complex_Main
begin

section \<open>Common ground: exceptions, configuration constants, array access\<close>

text \<open>
  The development embeds two classes of the repository:
  \<^item> \<open>weakCNLSG\<close> (\<^verbatim>\<open>src/pystoned/weakCNLSG.py\<close>): the outer driver with its two violation
    scanners, its accessors and its constructor;
  \<^item> \<open>weakCNLSxG1\<close> (\<^verbatim>\<open>src/pystoned2/utils/weakCNLSxG1.py\<close>): the first-pass model builder
    with its rule factories and its accessors.

  Python floats are modelled by \<^typ>\<open>real\<close>: sums, products and comparisons are exact, and
  the literal \<^verbatim>\<open>0.0001\<close> is the real number \<open>1 / 10000\<close>. Rounding, infinities and NaN are
  outside the model. Every exception the embedded code can raise is a value of
  \<open>error\<close>; a function that can raise returns \<open>error + 'a\<close> with \<open>Inl\<close> the exception.
\<close>

datatype error =
    TypeError string
  | ValueError string
  | IndexError
  | KeyError
  | UnboundLocalError string
  | NameError string
  | AttributeError string
  | NotOptimized
  | SolverFailure string

text \<open>
  The module \<^verbatim>\<open>constant\<close> that both files import is not part of the sources at hand, so
  the values it binds are a parameter \<open>K\<close> of every function that mentions one of them.
  Configuration values are strings; \<^verbatim>\<open>OPT_LOCAL\<close> and \<^verbatim>\<open>OPT_DEFAULT\<close> may be \<^verbatim>\<open>None\<close>.
\<close>

record constants =
  CET_ADDI :: string
  CET_MULT :: string
  FUN_PROD :: string
  FUN_COST :: string
  RTS_CRS :: string
  RTS_VRS :: string
  OPT_LOCAL :: "string option"
  OPT_DEFAULT :: "string option"

text \<open>The values the upstream package binds; used for concrete runs only.\<close>

definition pystoned_constants :: constants where
  "pystoned_constants =
     \<lparr>CET_ADDI = ''addi'', CET_MULT = ''mult'', FUN_PROD = ''prod'', FUN_COST = ''cost'',
      RTS_CRS = ''crs'', RTS_VRS = ''vrs'', OPT_LOCAL = Some ''local'', OPT_DEFAULT = None\<rparr>"

text \<open>Sequencing of computations that may raise: the first exception wins.\<close>

definition bind_e :: "'e + 'a \<Rightarrow> ('a \<Rightarrow> 'e + 'b) \<Rightarrow> 'e + 'b" where
  "bind_e m f = (case m of Inl e \<Rightarrow> Inl e | Inr v \<Rightarrow> f v)"

type_synonym vector = "real list"
type_synonym matrix = "real list list"

text \<open>\<^verbatim>\<open>a[i]\<close> on a one-dimensional array, and \<^verbatim>\<open>m[i, :]\<close> on a two-dimensional one, with
  a non-negative index: out of range raises \<^verbatim>\<open>IndexError\<close>.\<close>

definition item :: "'a list \<Rightarrow> nat \<Rightarrow> error + 'a" where
  "item xs i = (if i < length xs then Inr (xs ! i) else Inl IndexError)"

text \<open>\<^verbatim>\<open>m[i, j]\<close> read and \<^verbatim>\<open>m[i, j] = v\<close> written on a two-dimensional array.\<close>

definition getitem2 :: "matrix \<Rightarrow> nat \<Rightarrow> nat \<Rightarrow> error + real" where
  "getitem2 m i j =
     (if i < length m \<and> j < length (m ! i) then Inr (m ! i ! j) else Inl IndexError)"

definition setitem2 :: "matrix \<Rightarrow> nat \<Rightarrow> nat \<Rightarrow> real \<Rightarrow> error + matrix" where
  "setitem2 m i j v =
     (if i < length m \<and> j < length (m ! i) then Inr (m[i := (m ! i)[j := v]])
      else Inl IndexError)"

text \<open>An elementwise operation on two one-dimensional arrays, as in \<^verbatim>\<open>u * v\<close>: an
  operand of length one is broadcast, any other mismatch of lengths raises
  \<^verbatim>\<open>ValueError\<close>. \<open>sum_prod\<close> is \<^verbatim>\<open>np.sum(u * v)\<close>.\<close>

definition broadcast :: "(real \<Rightarrow> real \<Rightarrow> real) \<Rightarrow> vector \<Rightarrow> vector \<Rightarrow> error + vector" where
  "broadcast f u v =
     (if length u = length v then Inr (map2 f u v)
      else if length u = 1 then Inr (map (\<lambda>c. f (hd u) c) v)
      else if length v = 1 then Inr (map (\<lambda>c. f c (hd v)) u)
      else Inl (ValueError ''operands could not be broadcast together''))"

definition sum_prod :: "vector \<Rightarrow> vector \<Rightarrow> error + real" where
  "sum_prod u v = bind_e (broadcast (*) u v) (\<lambda>w. Inr (sum_list w))"

text \<open>\<^verbatim>\<open>np.sum(m[j, :] * d[i, :])\<close>.\<close>

definition row_dot :: "matrix \<Rightarrow> nat \<Rightarrow> matrix \<Rightarrow> nat \<Rightarrow> error + real" where
  "row_dot m j d i = bind_e (item m j) (\<lambda>u. bind_e (item d i) (\<lambda>v. sum_prod u v))"

text \<open>\<^verbatim>\<open>np.zeros((n, n))\<close>.\<close>

definition zeros :: "nat \<Rightarrow> matrix" where
  "zeros n = replicate n (replicate n 0)"


section \<open>The driver class \<open>weakCNLSG\<close>\<close>

text \<open>
  The fitted values a solved first-pass or second-pass model hands back to the driver
  (\<^verbatim>\<open>get_alpha()\<close>, \<^verbatim>\<open>get_beta()\<close>, \<^verbatim>\<open>get_delta()\<close>) and the values of the variables of its
  \<^verbatim>\<open>__model__\<close> that the driver's accessors read later.
\<close>

record solved_model =
  alpha_value :: vector
  beta_value :: matrix
  delta_value :: matrix
  epsilon_value :: vector
  lamda_value :: vector
  frontier_value :: vector

text \<open>
  The attributes of a \<open>weakCNLSG\<close> object. Attributes that \<^verbatim>\<open>__init__\<close> does not assign
  (\<^verbatim>\<open>alpha\<close>, \<^verbatim>\<open>beta\<close>, \<^verbatim>\<open>delta\<close>, \<^verbatim>\<open>__model__\<close>, \<^verbatim>\<open>count\<close>) are \<open>None\<close> until \<^verbatim>\<open>optimize\<close>
  assigns them. The timing attributes \<^verbatim>\<open>t0\<close> and \<^verbatim>\<open>tt\<close> read the wall clock and are left out.
\<close>

record weakCNLSG =
  self_cutactive :: "bool list list"
  self_y :: vector
  self_x :: matrix
  self_b :: matrix
  self_z :: "matrix option"
  self_cet :: string
  self_fun :: string
  self_rts :: string
  active :: matrix
  active2 :: matrix
  activeweak :: matrix
  activeweak2 :: matrix
  optimization_status :: nat
  problem_status :: nat
  self_alpha :: "vector option"
  self_beta :: "matrix option"
  self_delta :: "matrix option"
  self_model :: "solved_model option"
  count :: "nat option"

subsection \<open>The pairwise violation scores\<close>

text \<open>The four formulas of \<^verbatim>\<open>__convergence_test\<close>, in the order of its branches. Operands
  are evaluated left to right, so the first failing access decides the exception.\<close>

definition score_vrs_prod ::
  "matrix \<Rightarrow> matrix \<Rightarrow> vector \<Rightarrow> matrix \<Rightarrow> matrix \<Rightarrow> nat \<Rightarrow> nat \<Rightarrow> error + real" where
  "score_vrs_prod x b alpha beta delta i j =
     bind_e (item alpha i) (\<lambda>ai.
     bind_e (row_dot beta i x i) (\<lambda>bxi.
     bind_e (row_dot delta i b i) (\<lambda>dbi.
     bind_e (item alpha j) (\<lambda>aj.
     bind_e (row_dot beta j x i) (\<lambda>bxj.
     bind_e (row_dot delta j b i) (\<lambda>dbj.
       Inr (ai + bxi + dbi - aj - bxj - dbj)))))))"

definition score_vrs_cost ::
  "matrix \<Rightarrow> matrix \<Rightarrow> vector \<Rightarrow> matrix \<Rightarrow> matrix \<Rightarrow> nat \<Rightarrow> nat \<Rightarrow> error + real" where
  "score_vrs_cost x b alpha beta delta i j =
     bind_e (item alpha i) (\<lambda>ai.
     bind_e (row_dot beta i x i) (\<lambda>bxi.
     bind_e (row_dot delta i b i) (\<lambda>dbi.
     bind_e (item alpha j) (\<lambda>aj.
     bind_e (row_dot beta j x i) (\<lambda>bxj.
     bind_e (row_dot delta j b i) (\<lambda>dbj.
       Inr (- ai - bxi - dbi + aj + bxj + dbj)))))))"

definition score_crs_prod ::
  "matrix \<Rightarrow> matrix \<Rightarrow> vector \<Rightarrow> matrix \<Rightarrow> matrix \<Rightarrow> nat \<Rightarrow> nat \<Rightarrow> error + real" where
  "score_crs_prod x b alpha beta delta i j =
     bind_e (row_dot beta i x i) (\<lambda>bxi.
     bind_e (row_dot delta i b i) (\<lambda>dbi.
     bind_e (row_dot beta j x i) (\<lambda>bxj.
     bind_e (row_dot delta j b i) (\<lambda>dbj.
       Inr (bxi + dbi - bxj - dbj)))))"

definition score_crs_cost ::
  "matrix \<Rightarrow> matrix \<Rightarrow> vector \<Rightarrow> matrix \<Rightarrow> matrix \<Rightarrow> nat \<Rightarrow> nat \<Rightarrow> error + real" where
  "score_crs_cost x b alpha beta delta i j =
     bind_e (row_dot beta i x i) (\<lambda>bxi.
     bind_e (row_dot delta i b i) (\<lambda>dbi.
     bind_e (row_dot beta j x i) (\<lambda>bxj.
     bind_e (row_dot delta j b i) (\<lambda>dbj.
       Inr (- bxi - dbi + bxj + dbj)))))"

text \<open>The four formulas of \<^verbatim>\<open>__convergence_test_weak\<close>, in the order of its branches.\<close>

definition weak_vrs_prod ::
  "matrix \<Rightarrow> matrix \<Rightarrow> vector \<Rightarrow> matrix \<Rightarrow> matrix \<Rightarrow> nat \<Rightarrow> nat \<Rightarrow> error + real" where
  "weak_vrs_prod x b alpha beta delta i j =
     bind_e (item alpha j) (\<lambda>aj. bind_e (row_dot beta j x i) (\<lambda>bxj. Inr (- aj - bxj)))"

definition weak_vrs_cost ::
  "matrix \<Rightarrow> matrix \<Rightarrow> vector \<Rightarrow> matrix \<Rightarrow> matrix \<Rightarrow> nat \<Rightarrow> nat \<Rightarrow> error + real" where
  "weak_vrs_cost x b alpha beta delta i j =
     bind_e (item alpha j) (\<lambda>aj. bind_e (row_dot beta j x i) (\<lambda>bxj. Inr (aj + bxj)))"

definition weak_crs_prod ::
  "matrix \<Rightarrow> matrix \<Rightarrow> vector \<Rightarrow> matrix \<Rightarrow> matrix \<Rightarrow> nat \<Rightarrow> nat \<Rightarrow> error + real" where
  "weak_crs_prod x b alpha beta delta i j =
     bind_e (row_dot beta j x i) (\<lambda>bxj. Inr (- bxj))"

definition weak_crs_cost ::
  "matrix \<Rightarrow> matrix \<Rightarrow> vector \<Rightarrow> matrix \<Rightarrow> matrix \<Rightarrow> nat \<Rightarrow> nat \<Rightarrow> error + real" where
  "weak_crs_cost x b alpha beta delta i j =
     bind_e (row_dot beta j x i) (\<lambda>bxj. Inr bxj)"

subsection \<open>The loops of a scan\<close>

text \<open>
  The body of each of the eight branches is the same pair of nested loops around one of
  the formulas above; the loops are written once, with the formula \<open>sc\<close> as a parameter.
  \<open>viol\<close> is the score matrix the branch writes (\<^verbatim>\<open>active2\<close> or \<^verbatim>\<open>activeweak2\<close>), \<open>act\<close> the
  0/1 matrix it marks (\<^verbatim>\<open>active\<close> or \<^verbatim>\<open>activeweak\<close>), \<open>activetmp\<close> and \<open>activetmp1\<close> the two
  local accumulators. \<open>activetmp\<close> is \<open>None\<close> as long as no assignment has bound it.
\<close>

record scan_vars =
  viol :: matrix
  act :: matrix
  activetmp :: "real option"
  activetmp1 :: real

text \<open>First inner loop over \<open>j\<close>: store the score of \<open>(i, j)\<close> and keep the running maximum
  (what is compared and kept is the entry just stored).\<close>

fun score_loop ::
  "(nat \<Rightarrow> nat \<Rightarrow> error + real) \<Rightarrow> nat \<Rightarrow> nat list \<Rightarrow> matrix \<Rightarrow> real \<Rightarrow> error + (matrix \<times> real)"
where
  "score_loop sc i [] a2 tmp = Inr (a2, tmp)"
| "score_loop sc i (j # js) a2 tmp =
     bind_e (sc i j) (\<lambda>v.
     bind_e (setitem2 a2 i j v) (\<lambda>a2'.
       score_loop sc i js a2' (if v > tmp then v else tmp)))"

text \<open>Second inner loop over \<open>j\<close>: mark every column whose stored score reaches the row's
  maximum, provided the maximum is positive.\<close>

fun mark_loop :: "nat \<Rightarrow> nat list \<Rightarrow> matrix \<Rightarrow> real \<Rightarrow> matrix \<Rightarrow> error + matrix" where
  "mark_loop i [] a2 tmp a = Inr a"
| "mark_loop i (j # js) a2 tmp a =
     bind_e (getitem2 a2 i j) (\<lambda>w.
       if w \<ge> tmp \<and> tmp > 0 then bind_e (setitem2 a i j 1) (\<lambda>a'. mark_loop i js a2 tmp a')
       else mark_loop i js a2 tmp a)"

text \<open>Outer loop over \<open>i\<close>.\<close>

fun row_loop ::
  "(nat \<Rightarrow> nat \<Rightarrow> error + real) \<Rightarrow> nat \<Rightarrow> nat list \<Rightarrow> scan_vars \<Rightarrow> error + scan_vars" where
  "row_loop sc n [] st = Inr st"
| "row_loop sc n (i # is) st =
     bind_e (score_loop sc i [0..<n] (viol st) 0) (\<lambda>(a2, tmp).
     bind_e (mark_loop i [0..<n] a2 tmp (act st)) (\<lambda>a.
       row_loop sc n is
         \<lparr>viol = a2, act = a, activetmp = Some tmp,
          activetmp1 = (if tmp > activetmp1 st then tmp else activetmp1 st)\<rparr>))"

text \<open>The final \<^verbatim>\<open>return activetmp\<close>: a local that no branch has bound raises
  \<^verbatim>\<open>UnboundLocalError\<close>.\<close>

definition return_activetmp :: "scan_vars \<Rightarrow> error + real" where
  "return_activetmp st =
     (case activetmp st of None \<Rightarrow> Inl (UnboundLocalError ''activetmp'') | Some r \<Rightarrow> Inr r)"

subsection \<open>\<^verbatim>\<open>__convergence_test\<close> and \<^verbatim>\<open>__convergence_test_weak\<close>\<close>

text \<open>Both return the value of the \<^verbatim>\<open>return\<close> statement together with the object as the
  scan has left it. When an exception is raised the model does not say in what state
  the object is.\<close>

definition convergence_test ::
  "constants \<Rightarrow> weakCNLSG \<Rightarrow> vector \<Rightarrow> matrix \<Rightarrow> matrix \<Rightarrow> error + (real \<times> weakCNLSG)" where
  "convergence_test K self alpha beta delta =
     (let x = self_x self; b = self_b self; n = length x;
          st0 = \<lparr>viol = active2 self, act = active self, activetmp = None, activetmp1 = 0\<rparr>
      in bind_e
           (if self_rts self = RTS_VRS K \<and> self_fun self = FUN_PROD K then
              row_loop (score_vrs_prod x b alpha beta delta) n [0..<n] st0
            else if self_rts self = RTS_VRS K \<and> self_fun self = FUN_COST K then
              row_loop (score_vrs_cost x b alpha beta delta) n [0..<n] st0
            else if self_rts self = RTS_CRS K \<and> self_fun self = FUN_PROD K then
              row_loop (score_crs_prod x b alpha beta delta) n [0..<n] st0
            else if self_rts self = RTS_CRS K \<and> self_fun self = FUN_COST K then
              row_loop (score_crs_cost x b alpha beta delta) n [0..<n] st0
            else Inr st0)
           (\<lambda>st. bind_e (return_activetmp st) (\<lambda>r.
              Inr (r, self\<lparr>active2 := viol st, active := act st\<rparr>))))"

definition convergence_test_weak ::
  "constants \<Rightarrow> weakCNLSG \<Rightarrow> vector \<Rightarrow> matrix \<Rightarrow> matrix \<Rightarrow> error + (real \<times> weakCNLSG)" where
  "convergence_test_weak K self alpha beta delta =
     (let x = self_x self; b = self_b self; n = length x;
          st0 = \<lparr>viol = activeweak2 self, act = activeweak self, activetmp = None,
                 activetmp1 = 0\<rparr>
      in bind_e
           (if self_rts self = RTS_VRS K \<and> self_fun self = FUN_PROD K then
              row_loop (weak_vrs_prod x b alpha beta delta) n [0..<n] st0
            else if self_rts self = RTS_VRS K \<and> self_fun self = FUN_COST K then
              row_loop (weak_vrs_cost x b alpha beta delta) n [0..<n] st0
            else if self_rts self = RTS_CRS K \<and> self_fun self = FUN_PROD K then
              row_loop (weak_crs_prod x b alpha beta delta) n [0..<n] st0
            else if self_rts self = RTS_CRS K \<and> self_fun self = FUN_COST K then
              row_loop (weak_crs_cost x b alpha beta delta) n [0..<n] st0
            else Inr st0)
           (\<lambda>st. bind_e (return_activetmp st) (\<lambda>r.
              Inr (r, self\<lparr>activeweak2 := viol st, activeweak := act st\<rparr>))))"

text \<open>The score of the pair \<open>(i, j)\<close> in the regime of the object: the formula of the
  branch that the scan takes, \<open>None\<close> when it takes none.\<close>

definition violation ::
  "constants \<Rightarrow> weakCNLSG \<Rightarrow> vector \<Rightarrow> matrix \<Rightarrow> matrix \<Rightarrow> (nat \<Rightarrow> nat \<Rightarrow> error + real) option"
where
  "violation K self alpha beta delta =
     (let x = self_x self; b = self_b self in
      if self_rts self = RTS_VRS K \<and> self_fun self = FUN_PROD K then
        Some (score_vrs_prod x b alpha beta delta)
      else if self_rts self = RTS_VRS K \<and> self_fun self = FUN_COST K then
        Some (score_vrs_cost x b alpha beta delta)
      else if self_rts self = RTS_CRS K \<and> self_fun self = FUN_PROD K then
        Some (score_crs_prod x b alpha beta delta)
      else if self_rts self = RTS_CRS K \<and> self_fun self = FUN_COST K then
        Some (score_crs_cost x b alpha beta delta)
      else None)"

definition violation_weak ::
  "constants \<Rightarrow> weakCNLSG \<Rightarrow> vector \<Rightarrow> matrix \<Rightarrow> matrix \<Rightarrow> (nat \<Rightarrow> nat \<Rightarrow> error + real) option"
where
  "violation_weak K self alpha beta delta =
     (let x = self_x self; b = self_b self in
      if self_rts self = RTS_VRS K \<and> self_fun self = FUN_PROD K then
        Some (weak_vrs_prod x b alpha beta delta)
      else if self_rts self = RTS_VRS K \<and> self_fun self = FUN_COST K then
        Some (weak_vrs_cost x b alpha beta delta)
      else if self_rts self = RTS_CRS K \<and> self_fun self = FUN_PROD K then
        Some (weak_crs_prod x b alpha beta delta)
      else if self_rts self = RTS_CRS K \<and> self_fun self = FUN_COST K then
        Some (weak_crs_cost x b alpha beta delta)
      else None)"

subsection \<open>\<^verbatim>\<open>optimize\<close>\<close>

text \<open>
  The four model classes \<^verbatim>\<open>weakCNLSG1\<close>, \<^verbatim>\<open>weakCNLSZG1\<close>, \<^verbatim>\<open>weakCNLSG2\<close> and \<^verbatim>\<open>weakCNLSZG2\<close>
  that \<^verbatim>\<open>optimize\<close> instantiates, the preselector \<^verbatim>\<open>sweet.sweet\<close> and the checks of \<^verbatim>\<open>tools\<close>
  are not part of the sources at hand: they are parameters, collected in one record. A
  model class stands for what the driver does with it: construct it from the listed
  arguments, call \<^verbatim>\<open>optimize(email, solver)\<close> on it, read \<^verbatim>\<open>get_alpha()\<close>, \<^verbatim>\<open>get_beta()\<close>,
  \<^verbatim>\<open>get_delta()\<close> and \<^verbatim>\<open>__model__\<close>. Any of these steps may raise.
\<close>

record fitted =
  fit_alpha :: vector
  fit_beta :: matrix
  fit_delta :: matrix
  fit_model :: solved_model

record collaborators =
  weakCNLSZG1 ::
    "vector \<Rightarrow> matrix \<Rightarrow> matrix \<Rightarrow> matrix \<Rightarrow> bool list list \<Rightarrow> string \<Rightarrow> string \<Rightarrow> string
       \<Rightarrow> string option \<Rightarrow> string option \<Rightarrow> error + fitted"
  weakCNLSG1 ::
    "vector \<Rightarrow> matrix \<Rightarrow> matrix \<Rightarrow> bool list list \<Rightarrow> string \<Rightarrow> string \<Rightarrow> string
       \<Rightarrow> string option \<Rightarrow> string option \<Rightarrow> error + fitted"
  weakCNLSZG2 ::
    "vector \<Rightarrow> matrix \<Rightarrow> matrix \<Rightarrow> matrix \<Rightarrow> bool list list \<Rightarrow> matrix \<Rightarrow> matrix
       \<Rightarrow> string \<Rightarrow> string \<Rightarrow> string \<Rightarrow> string option \<Rightarrow> string option \<Rightarrow> error + fitted"
  weakCNLSG2 ::
    "vector \<Rightarrow> matrix \<Rightarrow> matrix \<Rightarrow> bool list list \<Rightarrow> matrix \<Rightarrow> matrix
       \<Rightarrow> string \<Rightarrow> string \<Rightarrow> string \<Rightarrow> string option \<Rightarrow> string option \<Rightarrow> error + fitted"
  sweet :: "matrix \<Rightarrow> error + bool list list"
  assert_valid_wp_data ::
    "matrix \<Rightarrow> matrix \<Rightarrow> matrix \<Rightarrow> matrix option
       \<Rightarrow> error + (vector \<times> matrix \<times> matrix \<times> matrix option)"
  assert_various_return_to_scale :: "string \<Rightarrow> error + unit"
  assert_contextual_variable :: "matrix option \<Rightarrow> error + unit"
  assert_undesirable_output :: "matrix \<Rightarrow> error + unit"

text \<open>Reading an attribute that has not been assigned raises \<^verbatim>\<open>AttributeError\<close>.\<close>

definition attr :: "string \<Rightarrow> 'a option \<Rightarrow> error + 'a" where
  "attr name v = (case v of None \<Rightarrow> Inl (AttributeError name) | Some a \<Rightarrow> Inr a)"

text \<open>The first-pass model: the branch on \<^verbatim>\<open>z\<close>, the solve and the three reads.\<close>

definition first_pass ::
  "collaborators \<Rightarrow> weakCNLSG \<Rightarrow> string option \<Rightarrow> string option \<Rightarrow> error + fitted" where
  "first_pass C self email solver =
     (case self_z self of
        Some z \<Rightarrow>
          weakCNLSZG1 C (self_y self) (self_x self) (self_b self) z (self_cutactive self)
            (self_cet self) (self_fun self) (self_rts self) email solver
      | None \<Rightarrow>
          weakCNLSG1 C (self_y self) (self_x self) (self_b self) (self_cutactive self)
            (self_cet self) (self_fun self) (self_rts self) email solver)"

text \<open>The re-solve of the loop body, on the current active matrices.\<close>

definition second_pass ::
  "collaborators \<Rightarrow> weakCNLSG \<Rightarrow> string option \<Rightarrow> string option \<Rightarrow> error + fitted" where
  "second_pass C self email solver =
     (case self_z self of
        Some z \<Rightarrow>
          weakCNLSZG2 C (self_y self) (self_x self) (self_b self) z (self_cutactive self)
            (active self) (activeweak self)
            (self_cet self) (self_fun self) (self_rts self) email solver
      | None \<Rightarrow>
          weakCNLSG2 C (self_y self) (self_x self) (self_b self) (self_cutactive self)
            (active self) (activeweak self)
            (self_cet self) (self_fun self) (self_rts self) email solver)"

text \<open>The assignments of \<^verbatim>\<open>alpha\<close>, \<^verbatim>\<open>beta\<close>, \<^verbatim>\<open>delta\<close> and \<^verbatim>\<open>__model__\<close> after a solve.\<close>

definition store_fit :: "fitted \<Rightarrow> weakCNLSG \<Rightarrow> weakCNLSG" where
  "store_fit fit self =
     self\<lparr>self_alpha := Some (fit_alpha fit), self_beta := Some (fit_beta fit),
          self_delta := Some (fit_delta fit), self_model := Some (fit_model fit)\<rparr>"

text \<open>
  The condition of the \<^verbatim>\<open>while\<close> loop,
  \<^verbatim>\<open>self.__convergence_test(...) > 0.0001 or self.__convergence_test_weak(...) > 0.0001\<close>.
  Python's \<^verbatim>\<open>or\<close> evaluates its right operand only when the left one is false. The
  result is the truth value and the object as the scans that ran have left it.
\<close>

definition loop_condition :: "constants \<Rightarrow> weakCNLSG \<Rightarrow> error + (bool \<times> weakCNLSG)" where
  "loop_condition K self =
     bind_e (attr ''alpha'' (self_alpha self)) (\<lambda>alpha.
     bind_e (attr ''beta'' (self_beta self)) (\<lambda>beta.
     bind_e (attr ''delta'' (self_delta self)) (\<lambda>delta.
     bind_e (convergence_test K self alpha beta delta) (\<lambda>(r1, self1).
       if r1 > 0.0001 then Inr (True, self1)
       else bind_e (convergence_test_weak K self1 alpha beta delta) (\<lambda>(r2, self2).
              Inr (r2 > 0.0001, self2))))))"

text \<open>The body of the \<^verbatim>\<open>while\<close> loop: rebuild, solve, store, count.\<close>

definition loop_body ::
  "collaborators \<Rightarrow> string option \<Rightarrow> string option \<Rightarrow> weakCNLSG \<Rightarrow> error + weakCNLSG" where
  "loop_body C email solver self =
     bind_e (second_pass C self email solver) (\<lambda>fit.
     bind_e (attr ''count'' (count (store_fit fit self))) (\<lambda>c.
       Inr ((store_fit fit self)\<lparr>count := Some (c + 1)\<rparr>)))"

text \<open>The \<^verbatim>\<open>while\<close> loop has no bound on its iterations: it is a partial function, and
  \<open>None\<close> is the run that never leaves the loop.\<close>

partial_function (option) while_loop ::
  "constants \<Rightarrow> collaborators \<Rightarrow> string option \<Rightarrow> string option \<Rightarrow> weakCNLSG
     \<Rightarrow> (error + weakCNLSG) option" where
  "while_loop K C email solver self =
     (case loop_condition K self of
        Inl e \<Rightarrow> Some (Inl e)
      | Inr (continue, self1) \<Rightarrow>
          if continue then
            (case loop_body C email solver self1 of
               Inl e \<Rightarrow> Some (Inl e)
             | Inr self2 \<Rightarrow> while_loop K C email solver self2)
          else Some (Inr self1))"

declare while_loop.simps [code]

definition optimize ::
  "constants \<Rightarrow> collaborators \<Rightarrow> weakCNLSG \<Rightarrow> string option \<Rightarrow> string option
     \<Rightarrow> (error + weakCNLSG) option" where
  "optimize K C self email solver =
     (case first_pass C self email solver of
        Inl e \<Rightarrow> Some (Inl e)
      | Inr fit \<Rightarrow>
          (case while_loop K C email solver ((store_fit fit self)\<lparr>count := Some 0\<rparr>) of
             None \<Rightarrow> None
           | Some (Inl e) \<Rightarrow> Some (Inl e)
           | Some (Inr self') \<Rightarrow> Some (Inr (self'\<lparr>optimization_status := 1\<rparr>))))"

subsection \<open>The accessors\<close>

text \<open>
  Modelled from the spec: \<^verbatim>\<open>tools.assert_optimized\<close> is missing from the sources at hand.
  The spec has every accessor fail with a "not yet solved" error when it is called before
  a successful \<^verbatim>\<open>optimize\<close>, and has the run-state flag be 0 for unsolved and 1 for solved.
\<close>

definition assert_optimized :: "nat \<Rightarrow> error + unit" where
  "assert_optimized status = (if status = 0 then Inl NotOptimized else Inr ())"

text \<open>
  An accessor is a call on the object: it returns its result, or the exception, together
  with the object after the call. The table that \<^verbatim>\<open>get_beta\<close> and \<^verbatim>\<open>get_delta\<close> build with
  \<^verbatim>\<open>pandas\<close> (one row per unit, one column per coefficient) is the matrix of the values.
\<close>

definition get_status :: "weakCNLSG \<Rightarrow> nat \<times> weakCNLSG" where
  "get_status self = (optimization_status self, self)"

definition get_alpha :: "collaborators \<Rightarrow> weakCNLSG \<Rightarrow> (error + vector) \<times> weakCNLSG" where
  "get_alpha C self =
     (bind_e (assert_optimized (optimization_status self)) (\<lambda>_.
      bind_e (assert_various_return_to_scale C (self_rts self)) (\<lambda>_.
      bind_e (attr ''__model__'' (self_model self)) (\<lambda>m. Inr (alpha_value m)))), self)"

definition get_beta :: "weakCNLSG \<Rightarrow> (error + matrix) \<times> weakCNLSG" where
  "get_beta self =
     (bind_e (assert_optimized (optimization_status self)) (\<lambda>_.
      bind_e (attr ''__model__'' (self_model self)) (\<lambda>m. Inr (beta_value m))), self)"

definition get_residual :: "weakCNLSG \<Rightarrow> (error + vector) \<times> weakCNLSG" where
  "get_residual self =
     (bind_e (assert_optimized (optimization_status self)) (\<lambda>_.
      bind_e (attr ''__model__'' (self_model self)) (\<lambda>m. Inr (epsilon_value m))), self)"

definition get_lamda :: "collaborators \<Rightarrow> weakCNLSG \<Rightarrow> (error + vector) \<times> weakCNLSG" where
  "get_lamda C self =
     (bind_e (assert_optimized (optimization_status self)) (\<lambda>_.
      bind_e (assert_contextual_variable C (self_z self)) (\<lambda>_.
      bind_e (attr ''__model__'' (self_model self)) (\<lambda>m. Inr (lamda_value m)))), self)"

definition get_delta :: "collaborators \<Rightarrow> weakCNLSG \<Rightarrow> (error + matrix) \<times> weakCNLSG" where
  "get_delta C self =
     (bind_e (assert_optimized (optimization_status self)) (\<lambda>_.
      bind_e (assert_undesirable_output C (self_b self)) (\<lambda>_.
      bind_e (attr ''__model__'' (self_model self)) (\<lambda>m. Inr (delta_value m)))), self)"

text \<open>\<^verbatim>\<open>get_frontier\<close>: three branches on the error term and on \<^verbatim>\<open>z\<close>; when none is taken the
  local \<^verbatim>\<open>frontier\<close> is unbound at the \<^verbatim>\<open>return\<close>. \<^verbatim>\<open>z[:, 0]\<close> is the first column of \<^verbatim>\<open>z\<close>.\<close>

definition first_column :: "matrix \<Rightarrow> error + vector" where
  "first_column z =
     (if z \<noteq> [] \<and> (\<forall>r \<in> set z. r \<noteq> []) then Inr (map hd z) else Inl IndexError)"

definition get_frontier ::
  "constants \<Rightarrow> collaborators \<Rightarrow> weakCNLSG \<Rightarrow> (error + vector) \<times> weakCNLSG" where
  "get_frontier K C self =
     (bind_e (assert_optimized (optimization_status self)) (\<lambda>_.
        if self_cet self = CET_MULT K \<and> self_z self = None then
          bind_e (attr ''__model__'' (self_model self)) (\<lambda>m.
            Inr (map (\<lambda>f. f + 1) (frontier_value m)))
        else if self_cet self = CET_MULT K \<and> self_z self \<noteq> None then
          bind_e (fst (get_residual self)) (\<lambda>residual.
          bind_e (fst (get_lamda C self)) (\<lambda>lamda.
          bind_e (attr ''z'' (self_z self)) (\<lambda>z.
          bind_e (first_column z) (\<lambda>z0.
          bind_e (broadcast (*) lamda z0) (\<lambda>lz.
          bind_e (broadcast (+) residual lz) (\<lambda>e.
          bind_e (broadcast (/) (self_y self) (map exp e)) (\<lambda>q.
            Inr (map (\<lambda>f. f - 1) q))))))))
        else if self_cet self = CET_ADDI K then
          bind_e (fst (get_residual self)) (\<lambda>residual.
            broadcast (-) (self_y self) residual)
        else Inl (UnboundLocalError ''frontier'')), self)"

subsection \<open>The constructor\<close>

text \<open>
  \<^verbatim>\<open>np.column_stack\<close> has one positional parameter, the sequence of arrays to stack; the
  model takes the list of the positional arguments of the call. Called with one
  argument it stacks the one-dimensional arrays of the sequence as columns.
\<close>

definition np_column_stack :: "matrix list \<Rightarrow> error + matrix" where
  "np_column_stack args =
     (case args of
        [tup] \<Rightarrow>
          if tup = [] then Inl (ValueError ''need at least one array to concatenate'')
          else if \<forall>a \<in> set tup. length a = length (hd tup) then Inr (transpose tup)
          else Inl (ValueError ''all the input array dimensions must match exactly'')
      | _ \<Rightarrow> Inl (TypeError ''column_stack() takes 1 positional argument''))"

text \<open>The assignments of \<^verbatim>\<open>__init__\<close> that follow the preselection and the validation.\<close>

definition init_attributes ::
  "bool list list \<Rightarrow> vector \<times> matrix \<times> matrix \<times> matrix option \<Rightarrow> matrix
     \<Rightarrow> string \<Rightarrow> string \<Rightarrow> string \<Rightarrow> weakCNLSG" where
  "init_attributes cutactive valid x cet fn rts =
     (case valid of (y', x', b', z') \<Rightarrow>
      \<lparr>self_cutactive = cutactive, self_y = y', self_x = x', self_b = b', self_z = z',
       self_cet = cet, self_fun = fn, self_rts = rts,
       active = zeros (length x), active2 = zeros (length x),
       activeweak = zeros (length x), activeweak2 = zeros (length x),
       optimization_status = 0, problem_status = 0,
       self_alpha = None, self_beta = None, self_delta = None, self_model = None,
       count = None\<rparr>)"

text \<open>\<^verbatim>\<open>__init__\<close>, with its arguments as given by the caller (a default is the caller's
  value): the call \<^verbatim>\<open>np.column_stack(x, b)\<close> passes two positional arguments.\<close>

definition init ::
  "collaborators \<Rightarrow> matrix \<Rightarrow> matrix \<Rightarrow> matrix \<Rightarrow> matrix option \<Rightarrow> string \<Rightarrow> string \<Rightarrow> string
     \<Rightarrow> error + weakCNLSG" where
  "init C y x b z cet fn rts =
     bind_e (np_column_stack [x, b]) (\<lambda>stacked.
     bind_e (sweet C stacked) (\<lambda>cutactive.
     bind_e (assert_valid_wp_data C y x b z) (\<lambda>valid.
       Inr (init_attributes cutactive valid x cet fn rts))))"


section \<open>The first-pass model builder \<open>weakCNLSxG1\<close>\<close>

subsection \<open>The algebraic model under construction\<close>

text \<open>
  The modelling layer builds expressions and relations as syntax: a rule evaluates its
  Python expression on variables of the model and on entries of the data, and the
  operators of the layer return the tree of that expression. \<open>Var\<close> is an indexed
  variable (\<^verbatim>\<open>model.alpha[i]\<close>), \<open>Data\<close> an entry of the data as the rule writes it
  (\<^verbatim>\<open>self.x[i]\<close> is \<open>Data ''x'' [i]\<close>, \<^verbatim>\<open>self.y[i][j]\<close> is \<open>Data ''y'' [i, j]\<close>). The entries of
  the data are not evaluated: only \<^verbatim>\<open>len(self.x)\<close>, \<^verbatim>\<open>len(self.y[0])\<close>, \<^verbatim>\<open>len(self.b[0])\<close> and
  the entries of \<^verbatim>\<open>cutactive\<close> are. What the layer does with an operand of an unsuitable
  Python type is outside the model.
\<close>

datatype expr =
    Num real
  | Var string "nat list"
  | Data string "nat list"
  | Neg expr
  | Add expr expr
  | Sub expr expr
  | Mul expr expr
  | Pow expr nat
  | Log expr

datatype relation = Equal expr expr | LessEq expr expr | GreaterEq expr expr

text \<open>What a constraint rule returns: a relation, or \<^verbatim>\<open>Constraint.Skip\<close>.\<close>

datatype rule_result = Rel relation | Skip

text \<open>A variable family: its index sets and its lower bound (\<^verbatim>\<open>bounds=(0.0, None)\<close>).\<close>

record var_decl =
  var_index :: "nat list list"
  var_lower :: "real option"

text \<open>The components of a \<^verbatim>\<open>ConcreteModel\<close>, in the order of their creation, and the
  values of its variables (\<open>None\<close> before a solve has set them).\<close>

record concrete_model =
  sets :: "(string \<times> nat list) list"
  variables :: "(string \<times> var_decl) list"
  objective :: "expr option"
  constraints :: "(string \<times> (nat list \<times> relation) list) list"
  var_value :: "string \<Rightarrow> nat list \<Rightarrow> real option"

definition ConcreteModel :: concrete_model where
  "ConcreteModel =
     \<lparr>sets = [], variables = [], objective = None, constraints = [],
      var_value = (\<lambda>_ _. None)\<rparr>"

definition add_set :: "string \<Rightarrow> nat list \<Rightarrow> concrete_model \<Rightarrow> concrete_model" where
  "add_set name s m = m\<lparr>sets := sets m @ [(name, s)]\<rparr>"

definition add_var ::
  "string \<Rightarrow> nat list list \<Rightarrow> real option \<Rightarrow> concrete_model \<Rightarrow> concrete_model" where
  "add_var name index lower m =
     m\<lparr>variables := variables m @ [(name, \<lparr>var_index = index, var_lower = lower\<rparr>)]\<rparr>"

definition add_constraint ::
  "string \<Rightarrow> (nat list \<times> relation) list \<Rightarrow> concrete_model \<Rightarrow> concrete_model" where
  "add_constraint name cs m = m\<lparr>constraints := constraints m @ [(name, cs)]\<rparr>"

text \<open>\<^verbatim>\<open>model.J\<close>, and \<^verbatim>\<open>model.alpha[i]\<close> or \<^verbatim>\<open>model.delta[i, l]\<close>: a component that does not
  exist raises \<^verbatim>\<open>AttributeError\<close>, an index outside the index sets raises \<^verbatim>\<open>KeyError\<close>.\<close>

definition getset :: "concrete_model \<Rightarrow> string \<Rightarrow> error + nat list" where
  "getset m name = attr name (map_of (sets m) name)"

definition getvar :: "concrete_model \<Rightarrow> string \<Rightarrow> nat list \<Rightarrow> error + expr" where
  "getvar m name idx =
     bind_e (attr name (map_of (variables m) name)) (\<lambda>d.
       if idx \<in> set (product_lists (var_index d)) then Inr (Var name idx) else Inl KeyError)"

text \<open>\<^verbatim>\<open>I.nextw(i)\<close>: the next member of a range set, wrapping around at its end.\<close>

definition nextw :: "nat list \<Rightarrow> nat \<Rightarrow> nat" where
  "nextw I i = (i + 1) mod length I"

text \<open>\<^verbatim>\<open>sum(f(j) for j in S)\<close>: Python's \<^verbatim>\<open>sum\<close> starts from 0 and adds the terms in order.\<close>

fun py_sum :: "(nat \<Rightarrow> error + expr) \<Rightarrow> nat list \<Rightarrow> expr \<Rightarrow> error + expr" where
  "py_sum f [] acc = Inr acc"
| "py_sum f (j # js) acc = bind_e (f j) (\<lambda>t. py_sum f js (Add acc t))"

definition sum_over :: "concrete_model \<Rightarrow> string \<Rightarrow> (nat \<Rightarrow> error + expr) \<Rightarrow> error + expr" where
  "sum_over m name f = bind_e (getset m name) (\<lambda>S. py_sum f S (Num 0))"

text \<open>The product of a variable and an entry of the data,
  as in \<^verbatim>\<open>model.gamma[i, j] * self.y[i][j]\<close>.\<close>

definition coef_times ::
  "concrete_model \<Rightarrow> string \<Rightarrow> nat list \<Rightarrow> string \<Rightarrow> nat list \<Rightarrow> error + expr" where
  "coef_times m v vi d di = bind_e (getvar m v vi) (\<lambda>c. Inr (Mul c (Data d di)))"

text \<open>
  A rule is a Python function of the model and of the members of one index. The layer
  calls it with as many index arguments as the constraint has index sets; a call with
  another number of arguments than the function has parameters raises \<^verbatim>\<open>TypeError\<close>.
\<close>

type_synonym rule = "concrete_model \<Rightarrow> nat list \<Rightarrow> error + rule_result"

definition rule1 :: "(concrete_model \<Rightarrow> nat \<Rightarrow> error + rule_result) \<Rightarrow> rule" where
  "rule1 body model args =
     (case args of [i] \<Rightarrow> body model i
      | _ \<Rightarrow> Inl (TypeError ''rule takes 2 positional arguments''))"

definition rule2 :: "(concrete_model \<Rightarrow> nat \<Rightarrow> nat \<Rightarrow> error + rule_result) \<Rightarrow> rule" where
  "rule2 body model args =
     (case args of [i, h] \<Rightarrow> body model i h
      | _ \<Rightarrow> Inl (TypeError ''rule takes 3 positional arguments''))"

text \<open>\<^verbatim>\<open>Constraint(S1, ..., Sk, rule=r)\<close>, constructed when it is attached to a concrete model:
  the rule is called on every index of the product of the index sets, in order; a
  skipped index adds nothing.\<close>

fun construct ::
  "(nat list \<Rightarrow> error + rule_result) \<Rightarrow> nat list list \<Rightarrow> error + (nat list \<times> relation) list"
where
  "construct r [] = Inr []"
| "construct r (idx # rest) =
     bind_e (r idx) (\<lambda>res.
     bind_e (construct r rest) (\<lambda>cs.
       Inr (case res of Skip \<Rightarrow> cs | Rel c \<Rightarrow> (idx, c) # cs)))"

definition Constraint ::
  "nat list list \<Rightarrow> (nat list \<Rightarrow> error + rule_result) \<Rightarrow> error + (nat list \<times> relation) list"
where
  "Constraint index_sets r = construct r (product_lists index_sets)"

subsection \<open>The rule factories\<close>

text \<open>\<^verbatim>\<open>__objective_rule\<close>, called on the model: the sum of the squared residuals.\<close>

definition objective_rule :: "concrete_model \<Rightarrow> error + expr" where
  "objective_rule model =
     sum_over model ''I'' (\<lambda>i. bind_e (getvar model ''epsilon'' [i]) (\<lambda>e. Inr (Pow e 2)))"

text \<open>\<^verbatim>\<open>__regression_rule\<close>. When the error term is additive and the returns to scale are
  neither of the two, control leaves the inner \<^verbatim>\<open>if\<close> and reaches the final \<^verbatim>\<open>raise\<close>.

  The rules it returns keep the operand \<^verbatim>\<open>self.x[i]\<close>, and \<^verbatim>\<open>log(self.x[i])\<close>, as written. The
  code evaluates them on the data at the moment the constraint is built, and that can
  fail there: the comparison or the logarithm of a row of a two-dimensional \<^verbatim>\<open>x\<close>, the
  logarithm of a number that is not positive. These failures of a rule that is called
  are not in the model; what is in the model is which factory raises and when.\<close>

definition regression_rule :: "constants \<Rightarrow> string \<Rightarrow> string \<Rightarrow> error + rule" where
  "regression_rule K cet rts =
     (if cet = CET_ADDI K then
        (if rts = RTS_VRS K then
           Inr (rule1 (\<lambda>model i.
             bind_e (getvar model ''alpha'' [i]) (\<lambda>a.
             bind_e (sum_over model ''J'' (\<lambda>j. coef_times model ''gamma'' [i, j] ''y'' [i, j])) (\<lambda>sg.
             bind_e (sum_over model ''L'' (\<lambda>l. coef_times model ''delta'' [i, l] ''b'' [i, l])) (\<lambda>sd.
             bind_e (getvar model ''epsilon'' [i]) (\<lambda>e.
               Inr (Rel (Equal (Data ''x'' [i]) (Sub (Sub (Add (Neg a) sg) sd) e)))))))))
         else if rts = RTS_CRS K then
           Inr (rule1 (\<lambda>model i.
             bind_e (sum_over model ''J'' (\<lambda>j. coef_times model ''gamma'' [i, j] ''y'' [i, j])) (\<lambda>sg.
             bind_e (sum_over model ''L'' (\<lambda>l. coef_times model ''delta'' [i, l] ''b'' [i, l])) (\<lambda>sd.
             bind_e (getvar model ''epsilon'' [i]) (\<lambda>e.
               Inr (Rel (Equal (Data ''x'' [i]) (Sub (Sub sg sd) e))))))))
         else Inl (ValueError ''Undefined model parameters.''))
      else if cet = CET_MULT K then
        Inr (rule1 (\<lambda>model i.
          bind_e (getvar model ''frontier'' [i]) (\<lambda>f.
          bind_e (getvar model ''epsilon'' [i]) (\<lambda>e.
            Inr (Rel (Equal (Log (Data ''x'' [i])) (Sub (Neg (Log (Add f (Num 1)))) e)))))))
      else Inl (ValueError ''Undefined model parameters.''))"

text \<open>\<^verbatim>\<open>__log_rule\<close>.\<close>

definition log_rule :: "constants \<Rightarrow> string \<Rightarrow> string \<Rightarrow> error + rule" where
  "log_rule K cet rts =
     (if cet = CET_MULT K then
        (if rts = RTS_VRS K then
           Inr (rule1 (\<lambda>model i.
             bind_e (getvar model ''frontier'' [i]) (\<lambda>f.
             bind_e (getvar model ''alpha'' [i]) (\<lambda>a.
             bind_e (sum_over model ''J'' (\<lambda>j. coef_times model ''gamma'' [i, j] ''y'' [i, j])) (\<lambda>sg.
             bind_e (sum_over model ''L'' (\<lambda>l. coef_times model ''delta'' [i, l] ''b'' [i, l])) (\<lambda>sd.
               Inr (Rel (Equal f (Sub (Add (Sub a sg) sd) (Num 1))))))))))
         else if rts = RTS_CRS K then
           Inr (rule1 (\<lambda>model i.
             bind_e (getvar model ''frontier'' [i]) (\<lambda>f.
             bind_e (sum_over model ''J'' (\<lambda>j. coef_times model ''gamma'' [i, j] ''y'' [i, j])) (\<lambda>sg.
             bind_e (sum_over model ''L'' (\<lambda>l. coef_times model ''delta'' [i, l] ''b'' [i, l])) (\<lambda>sd.
               Inr (Rel (Equal f (Sub (Add (Neg sg) sd) (Num 1)))))))))
         else Inl (ValueError ''Undefined model parameters.''))
      else Inl (ValueError ''Undefined model parameters.''))"

text \<open>
  The local \<^verbatim>\<open>__operator\<close> of \<^verbatim>\<open>__afriat_rule\<close> and \<^verbatim>\<open>__sweet_rule\<close>: \<^verbatim>\<open>NumericValue.__le__\<close> for a
  production frontier, \<^verbatim>\<open>NumericValue.__ge__\<close> for a cost frontier, unbound otherwise. A rule
  that calls an unbound \<^verbatim>\<open>__operator\<close> raises \<^verbatim>\<open>NameError\<close>, before it evaluates the operands.
\<close>

definition operator_of :: "constants \<Rightarrow> string \<Rightarrow> (expr \<Rightarrow> expr \<Rightarrow> relation) option" where
  "operator_of K fn =
     (if fn = FUN_PROD K then Some LessEq else if fn = FUN_COST K then Some GreaterEq else None)"

definition call_operator ::
  "(expr \<Rightarrow> expr \<Rightarrow> relation) option \<Rightarrow> error + (expr \<Rightarrow> expr \<Rightarrow> relation)" where
  "call_operator op =
     (case op of None \<Rightarrow> Inl (NameError ''__operator'') | Some f \<Rightarrow> Inr f)"

text \<open>\<^verbatim>\<open>__afriat_rule\<close>.\<close>

definition afriat_rule :: "constants \<Rightarrow> string \<Rightarrow> string \<Rightarrow> error + rule" where
  "afriat_rule K fn rts =
     (let op = operator_of K fn in
      if rts = RTS_VRS K then
        Inr (rule1 (\<lambda>model i.
          bind_e (call_operator op) (\<lambda>operator.
          bind_e (getvar model ''alpha'' [i]) (\<lambda>a.
          bind_e (sum_over model ''L'' (\<lambda>l. coef_times model ''delta'' [i, l] ''b'' [i, l])) (\<lambda>sd.
          bind_e (sum_over model ''J'' (\<lambda>j. coef_times model ''gamma'' [i, j] ''y'' [i, j])) (\<lambda>sg.
          bind_e (getset model ''I'') (\<lambda>I.
          bind_e (getvar model ''alpha'' [nextw I i]) (\<lambda>an.
          bind_e (sum_over model ''L''
                    (\<lambda>l. coef_times model ''delta'' [nextw I i, l] ''x'' [i, l])) (\<lambda>sdn.
          bind_e (sum_over model ''J''
                    (\<lambda>j. coef_times model ''gamma'' [nextw I i, j] ''y'' [i, j])) (\<lambda>sgn.
            Inr (Rel (operator (Sub (Add a sd) sg) (Sub (Add an sdn) sgn)))))))))))))
      else if rts = RTS_CRS K then
        Inr (rule1 (\<lambda>model i.
          bind_e (call_operator op) (\<lambda>operator.
          bind_e (sum_over model ''L'' (\<lambda>l. coef_times model ''delta'' [i, l] ''b'' [i, l])) (\<lambda>sd.
          bind_e (sum_over model ''J'' (\<lambda>j. coef_times model ''gamma'' [i, j] ''y'' [i, j])) (\<lambda>sg.
          bind_e (getset model ''I'') (\<lambda>I.
          bind_e (sum_over model ''L''
                    (\<lambda>l. coef_times model ''delta'' [nextw I i, l] ''x'' [i, l])) (\<lambda>sdn.
          bind_e (sum_over model ''J''
                    (\<lambda>j. coef_times model ''gamma'' [nextw I i, j] ''y'' [i, j])) (\<lambda>sgn.
            Inr (Rel (operator (Sub sd sg) (Sub sdn sgn)))))))))))
      else Inl (ValueError ''Undefined model parameters.''))"

text \<open>\<^verbatim>\<open>__disposability_rule\<close>: both rules are functions of the model and of one index \<open>i\<close>.\<close>

definition disposability_rule :: "constants \<Rightarrow> string \<Rightarrow> error + rule" where
  "disposability_rule K rts =
     (if rts = RTS_VRS K then
        Inr (rule1 (\<lambda>model i.
          bind_e (getset model ''I'') (\<lambda>I.
          bind_e (getvar model ''alpha'' [nextw I i]) (\<lambda>an.
          bind_e (sum_over model ''J'' (\<lambda>j. Inr (Data ''x'' [i, j]))) (\<lambda>sx.
            Inr (Rel (GreaterEq (Add an sx) (Num 0))))))))
      else if rts = RTS_CRS K then
        Inr (rule1 (\<lambda>model i.
          bind_e (sum_over model ''J'' (\<lambda>j. Inr (Data ''x'' [i, j]))) (\<lambda>sx.
            Inr (Rel (GreaterEq sx (Num 0))))))
      else Inl (ValueError ''Undefined model parameters.''))"

text \<open>\<^verbatim>\<open>__sweet_rule\<close>: functions of the model and of the two members \<open>i\<close>, \<open>h\<close> of an index.\<close>

definition sweet_rule ::
  "constants \<Rightarrow> bool list list \<Rightarrow> string \<Rightarrow> string \<Rightarrow> error + rule" where
  "sweet_rule K cutactive fn rts =
     (let op = operator_of K fn in
      if rts = RTS_VRS K then
        Inr (rule2 (\<lambda>model i h.
          bind_e (item cutactive i) (\<lambda>row.
          bind_e (item row h) (\<lambda>on.
            if on then
              if i = h then Inr Skip
              else
                bind_e (call_operator op) (\<lambda>operator.
                bind_e (getvar model ''alpha'' [i]) (\<lambda>a.
                bind_e (sum_over model ''J''
                          (\<lambda>j. coef_times model ''gamma'' [i, j] ''y'' [i, j])) (\<lambda>sg.
                bind_e (sum_over model ''L''
                          (\<lambda>l. coef_times model ''delta'' [i, l] ''b'' [i, l])) (\<lambda>sd.
                bind_e (getvar model ''alpha'' [h]) (\<lambda>ah.
                bind_e (sum_over model ''J''
                          (\<lambda>j. coef_times model ''gamma'' [h, j] ''y'' [i, j])) (\<lambda>sgh.
                bind_e (sum_over model ''L''
                          (\<lambda>l. coef_times model ''delta'' [h, l] ''b'' [i, l])) (\<lambda>sdh.
                  Inr (Rel (operator (Add (Sub a sg) sd) (Add (Sub ah sgh) sdh))))))))))
            else Inr Skip))))
      else if rts = RTS_CRS K then
        Inr (rule2 (\<lambda>model i h.
          bind_e (item cutactive i) (\<lambda>row.
          bind_e (item row h) (\<lambda>on.
            if on then
              if i = h then Inr Skip
              else
                bind_e (call_operator op) (\<lambda>operator.
                bind_e (sum_over model ''J''
                          (\<lambda>j. coef_times model ''gamma'' [i, j] ''y'' [i, j])) (\<lambda>sg.
                bind_e (sum_over model ''L''
                          (\<lambda>l. coef_times model ''delta'' [i, l] ''b'' [i, l])) (\<lambda>sd.
                bind_e (sum_over model ''J''
                          (\<lambda>j. coef_times model ''gamma'' [h, j] ''y'' [i, j])) (\<lambda>sgh.
                bind_e (sum_over model ''L''
                          (\<lambda>l. coef_times model ''delta'' [h, l] ''b'' [i, l])) (\<lambda>sdh.
                  Inr (Rel (operator (Add (Neg sg) sd) (Add (Neg sgh) sdh))))))))
            else Inr Skip))))
      else Inl (ValueError ''Undefined model parameters.''))"

subsection \<open>\<^verbatim>\<open>__init__\<close>\<close>

text \<open>
  The constructor attaches the components to the model one after the other. When a step
  raises, the exception leaves \<^verbatim>\<open>__init__\<close> and the caller receives no object; the result
  then carries the exception together with the model as built up to that step.
\<close>

record weakCNLSxG1 =
  xg_x :: matrix
  xg_y :: matrix
  xg_b :: matrix
  xg_cet :: string
  xg_fun :: string
  xg_rts :: string
  xg_cutactive :: "bool list list"
  xg_model :: concrete_model
  xg_optimization_status :: nat
  xg_problem_status :: nat

definition step ::
  "concrete_model \<Rightarrow> error + 'a \<Rightarrow> ('a \<Rightarrow> (error \<times> concrete_model) + 'b)
     \<Rightarrow> (error \<times> concrete_model) + 'b" where
  "step m r f = (case r of Inl e \<Rightarrow> Inl (e, m) | Inr v \<Rightarrow> f v)"

text \<open>The sets \<open>I\<close>, \<open>J\<close>, \<open>L\<close> and the five variable families.\<close>

definition declare_components ::
  "matrix \<Rightarrow> matrix \<Rightarrow> matrix \<Rightarrow> (error \<times> concrete_model) + concrete_model" where
  "declare_components y x b =
     (let I = [0..<length x];
          m1 = add_set ''I'' I ConcreteModel
      in step m1 (item y 0) (\<lambda>y0.
         let J = [0..<length y0];
             m2 = add_set ''J'' J m1
         in step m2 (item b 0) (\<lambda>b0.
            let L = [0..<length b0];
                m3 = add_set ''L'' L m2;
                m4 = add_var ''alpha'' [I] None m3;
                m5 = add_var ''delta'' [I, J] (Some 0) m4;
                m6 = add_var ''gamma'' [I, L] (Some 0) m5;
                m7 = add_var ''epsilon'' [I] None m6;
                m8 = add_var ''frontier'' [I] (Some 0) m7
            in Inr m8)))"

definition attach_objective ::
  "concrete_model \<Rightarrow> (error \<times> concrete_model) + concrete_model" where
  "attach_objective m = step m (objective_rule m) (\<lambda>obj. Inr (m\<lparr>objective := Some obj\<rparr>))"

fun getsets :: "concrete_model \<Rightarrow> string list \<Rightarrow> error + nat list list" where
  "getsets m [] = Inr []"
| "getsets m (name # names) =
     bind_e (getset m name) (\<lambda>S. bind_e (getsets m names) (\<lambda>Ss. Inr (S # Ss)))"

text \<open>One statement \<^verbatim>\<open>model.name = Constraint(sets, rule=factory())\<close>: the index sets are
  read, the factory is called, the constraint is constructed on the model.\<close>

definition attach_constraint ::
  "string \<Rightarrow> string list \<Rightarrow> error + rule \<Rightarrow> concrete_model
     \<Rightarrow> (error \<times> concrete_model) + concrete_model" where
  "attach_constraint name set_names factory m =
     step m (getsets m set_names) (\<lambda>index_sets.
     step m factory (\<lambda>r.
     step m (Constraint index_sets (r m)) (\<lambda>cs.
       Inr (add_constraint name cs m))))"

definition xg_init ::
  "constants \<Rightarrow> matrix \<Rightarrow> matrix \<Rightarrow> matrix \<Rightarrow> bool list list \<Rightarrow> string \<Rightarrow> string \<Rightarrow> string
     \<Rightarrow> (error \<times> concrete_model) + weakCNLSxG1" where
  "xg_init K y x b cutactive cet fn rts =
     bind_e (declare_components y x b) (\<lambda>m.
     bind_e (attach_objective m) (\<lambda>m.
     bind_e (attach_constraint ''regression_rule'' [''I''] (regression_rule K cet rts) m) (\<lambda>m.
     bind_e (if cet = CET_MULT K
             then attach_constraint ''log_rule'' [''I''] (log_rule K cet rts) m
             else Inr m) (\<lambda>m.
     bind_e (attach_constraint ''afriat_rule'' [''I''] (afriat_rule K fn rts) m) (\<lambda>m.
     bind_e (attach_constraint ''disposability_rule'' [''I'', ''I'']
               (disposability_rule K rts) m) (\<lambda>m.
     bind_e (attach_constraint ''sweet_rule'' [''I'', ''I'']
               (sweet_rule K cutactive fn rts) m) (\<lambda>m.
       Inr \<lparr>xg_x = x, xg_y = y, xg_b = b, xg_cet = cet, xg_fun = fn, xg_rts = rts,
            xg_cutactive = cutactive, xg_model = m,
            xg_optimization_status = 0, xg_problem_status = 0\<rparr>)))))))"

subsection \<open>\<^verbatim>\<open>optimize\<close> and the accessors of \<open>weakCNLSxG1\<close>\<close>










section \<open>Notions of the specification\<close>

text \<open>The maximum of the scores of row \<open>i\<close> over the \<open>n\<close> columns, and the maximum of the
  scores of all ordered pairs.\<close>

definition row_maximum :: "(nat \<Rightarrow> nat \<Rightarrow> error + real) \<Rightarrow> nat \<Rightarrow> nat \<Rightarrow> real" where
  "row_maximum sc n i = Max (set (map (\<lambda>j. projr (sc i j)) [0..<n]))"

definition largest_violation :: "(nat \<Rightarrow> nat \<Rightarrow> error + real) \<Rightarrow> nat \<Rightarrow> real" where
  "largest_violation sc n = Max (set (0 # map (row_maximum sc n) [0..<n]))"

text \<open>An entry that is 1 in \<open>m\<close> is 1 in \<open>m'\<close>.\<close>

definition grows :: "matrix \<Rightarrow> matrix \<Rightarrow> bool" where
  "grows m m' \<longleftrightarrow> (\<forall>i j. getitem2 m i j = Inr 1 \<longrightarrow> getitem2 m' i j = Inr 1)"

text \<open>Column \<open>l\<close> holds a positive score that no score of row \<open>i\<close> exceeds.\<close>

definition tops :: "(nat \<Rightarrow> nat \<Rightarrow> error + real) \<Rightarrow> nat \<Rightarrow> nat \<Rightarrow> nat \<Rightarrow> bool" where
  "tops sc n i l \<longleftrightarrow>
     l < n \<and> (\<exists>w. sc i l = Inr w \<and> 0 < w \<and> (\<forall>l' < n. \<exists>w'. sc i l' = Inr w' \<and> w' \<le> w))"


section \<open>Concrete inputs\<close>

text \<open>Two units with one input and one undesirable output each, additive error term,
  production frontier, variable returns to scale: the object as \<^verbatim>\<open>__init__\<close> assigns it.\<close>

definition example_self :: weakCNLSG where
  "example_self =
     init_attributes [[False, False], [False, False]] ([1, 2], [[1], [2]], [[1], [1]], None)
       [[1], [2]] ''addi'' ''prod'' ''vrs''"

text \<open>Fitted values with equal slopes: the concavity score of \<open>(i, j)\<close> is
  \<open>alpha[i] - alpha[j]\<close> and the weak-disposability score is \<open>- alpha[j] - x[i]\<close>.\<close>

definition example_beta :: matrix where
  "example_beta = [[1], [1]]"

definition example_delta :: matrix where
  "example_delta = [[0], [0]]"

text \<open>With these intercepts the first row holds the violation and the last row none.\<close>

definition first_row_alpha :: vector where
  "first_row_alpha = [-1, -3]"

text \<open>With these the last row holds a concavity violation, and both rows hold a
  weak-disposability violation.\<close>

definition last_row_alpha :: vector where
  "last_row_alpha = [-3, -1]"

text \<open>The object after the concavity scan, and after the weak-disposability scan, of
  \<open>last_row_alpha\<close>.\<close>

definition example_scanned :: weakCNLSG where
  "example_scanned = example_self\<lparr>active2 := [[0, -2], [2, 0]], active := [[0, 0], [1, 0]]\<rparr>"

definition example_scanned_weak :: weakCNLSG where
  "example_scanned_weak =
     example_self\<lparr>activeweak2 := [[2, 0], [1, -1]], activeweak := [[1, 0], [1, 0]]\<rparr>"

text \<open>Collaborators for concrete runs: the first pass returns the fit with the
  intercepts \<open>last_row_alpha\<close>, every re-solve the fit with the intercepts 0.\<close>

definition example_fit :: "vector \<Rightarrow> fitted" where
  "example_fit alpha =
     \<lparr>fit_alpha = alpha, fit_beta = example_beta, fit_delta = example_delta,
      fit_model =
        \<lparr>alpha_value = alpha, beta_value = example_beta, delta_value = example_delta,
         epsilon_value = [0, 0], lamda_value = [], frontier_value = [0, 0]\<rparr>\<rparr>"

definition example_collaborators :: collaborators where
  "example_collaborators =
     \<lparr>weakCNLSZG1 = (\<lambda>y x b z cutactive cet fn rts email solver.
        Inr (example_fit last_row_alpha)),
      weakCNLSG1 = (\<lambda>y x b cutactive cet fn rts email solver.
        Inr (example_fit last_row_alpha)),
      weakCNLSZG2 = (\<lambda>y x b z cutactive act actweak cet fn rts email solver.
        Inr (example_fit [0, 0])),
      weakCNLSG2 = (\<lambda>y x b cutactive act actweak cet fn rts email solver.
        Inr (example_fit [0, 0])),
      sweet = (\<lambda>stacked. Inr [[False, False], [False, False]]),
      assert_valid_wp_data = (\<lambda>y x b z. Inr (map hd y, x, b, z)),
      assert_various_return_to_scale =
        (\<lambda>rts. if rts = ''crs'' then Inl (ValueError ''constant returns to scale'')
              else Inr ()),
      assert_contextual_variable =
        (\<lambda>z. if z = None then Inl (ValueError ''no contextual variable'') else Inr ()),
      assert_undesirable_output = (\<lambda>b. Inr ())\<rparr>"

text \<open>A run of \<^verbatim>\<open>optimize\<close> on an object whose entry \<open>(0, 1)\<close> is already active: the object
  at the start, at the head of the loop after the first pass, after the first evaluation of
  the loop condition, at the head of the loop after the re-solve, after the concavity scan
  and the weak-disposability scan of the second evaluation, and at the end.\<close>

definition example_start :: weakCNLSG where
  "example_start = example_self\<lparr>active := [[0, 1], [0, 0]]\<rparr>"

definition example_head :: weakCNLSG where
  "example_head = (store_fit (example_fit last_row_alpha) example_start)\<lparr>count := Some 0\<rparr>"

definition example_head_scanned :: weakCNLSG where
  "example_head_scanned = example_head\<lparr>active2 := [[0, -2], [2, 0]], active := [[0, 1], [1, 0]]\<rparr>"

definition example_head2 :: weakCNLSG where
  "example_head2 = (store_fit (example_fit [0, 0]) example_head_scanned)\<lparr>count := Some 1\<rparr>"

definition example_head2_scanned :: weakCNLSG where
  "example_head2_scanned = example_head2\<lparr>active2 := [[0, 0], [0, 0]]\<rparr>"

definition example_head2_weak_scanned :: weakCNLSG where
  "example_head2_weak_scanned = example_head2_scanned\<lparr>activeweak2 := [[-1, -1], [-2, -2]]\<rparr>"

definition example_final :: weakCNLSG where
  "example_final =
     example_head2\<lparr>active2 := [[0, 0], [0, 0]], activeweak2 := [[-1, -1], [-2, -2]],
       optimization_status := 1\<rparr>"

text \<open>What the weak-disposability scan would leave, had it run in the first evaluation
  of the loop condition.\<close>

definition example_head_weak_scanned :: weakCNLSG where
  "example_head_weak_scanned =
     example_head_scanned\<lparr>activeweak2 := [[2, 0], [1, -1]], activeweak := [[1, 0], [1, 0]]\<rparr>"

text \<open>The model that \<open>declare_components\<close> returns for \<open>n\<close> units, \<open>nj\<close> columns of \<^verbatim>\<open>y\<close>
  and \<open>nl\<close> columns of \<^verbatim>\<open>b\<close>, written out.\<close>

definition declared :: "nat \<Rightarrow> nat \<Rightarrow> nat \<Rightarrow> concrete_model" where
  "declared n nj nl =
     \<lparr>sets = [(''I'', [0..<n]), (''J'', [0..<nj]), (''L'', [0..<nl])],
      variables =
        [(''alpha'', \<lparr>var_index = [[0..<n]], var_lower = None\<rparr>),
         (''delta'', \<lparr>var_index = [[0..<n], [0..<nj]], var_lower = Some 0\<rparr>),
         (''gamma'', \<lparr>var_index = [[0..<n], [0..<nl]], var_lower = Some 0\<rparr>),
         (''epsilon'', \<lparr>var_index = [[0..<n]], var_lower = None\<rparr>),
         (''frontier'', \<lparr>var_index = [[0..<n]], var_lower = Some 0\<rparr>)],
      objective = None, constraints = [], var_value = (\<lambda>_ _. None)\<rparr>"






section \<open>Properties of the scans\<close>

lemma bind_e_Inr: "bind_e m f = Inr y \<longleftrightarrow> (\<exists>v. m = Inr v \<and> f v = Inr y)"
  by (cases m) (simp_all add: bind_e_def)

lemma getitem2_setitem2:
  "setitem2 m i j v = Inr m' \<Longrightarrow>
   getitem2 m' k l = (if k = i \<and> l = j then Inr v else getitem2 m k l)"
  by (auto simp: setitem2_def getitem2_def nth_list_update split: if_splits)

lemma score_loop_entries:
  "score_loop sc i js a2 tmp = Inr (a2', tmp') \<Longrightarrow>
   getitem2 a2' k l = (if k = i \<and> l \<in> set js then sc i l else getitem2 a2 k l)"
proof (induction js arbitrary: a2 tmp)
  case Nil
  then show ?case by simp
next
  case (Cons j js)
  from Cons.prems obtain v a2m where
    v: "sc i j = Inr v" and w: "setitem2 a2 i j v = Inr a2m"
    and rest: "score_loop sc i js a2m (if v > tmp then v else tmp) = Inr (a2', tmp')"
    by (auto simp: bind_e_Inr)
  show ?case
    using Cons.IH [OF rest] getitem2_setitem2 [OF w, of k l] v by auto
qed

lemma score_loop_max:
  "score_loop sc i js a2 tmp = Inr (a2', tmp') \<Longrightarrow>
   tmp \<le> tmp' \<and> (\<forall>l \<in> set js. \<exists>v. sc i l = Inr v \<and> v \<le> tmp') \<and>
   (tmp' = tmp \<or> (\<exists>l \<in> set js. sc i l = Inr tmp'))"
proof (induction js arbitrary: a2 tmp)
  case Nil
  then show ?case by simp
next
  case (Cons j js)
  from Cons.prems obtain v a2m where
    v: "sc i j = Inr v" and w: "setitem2 a2 i j v = Inr a2m"
    and rest: "score_loop sc i js a2m (if v > tmp then v else tmp) = Inr (a2', tmp')"
    by (auto simp: bind_e_Inr)
  show ?case
    using Cons.IH [OF rest] v by (auto split: if_splits)
qed

lemma mark_loop_entries:
  "mark_loop i js a2 tmp a = Inr a' \<Longrightarrow>
   getitem2 a' k l =
     (if k = i \<and> l \<in> set js \<and> 0 < tmp \<and> (\<exists>w. getitem2 a2 i l = Inr w \<and> tmp \<le> w) then Inr 1
      else getitem2 a k l)"
proof (induction js arbitrary: a)
  case Nil
  then show ?case by simp
next
  case (Cons j js)
  from Cons.prems obtain w where w: "getitem2 a2 i j = Inr w"
    by (auto simp: bind_e_Inr)
  show ?case
  proof (cases "w \<ge> tmp \<and> tmp > 0")
    case True
    with Cons.prems w obtain am where s: "setitem2 a i j 1 = Inr am"
      and rest: "mark_loop i js a2 tmp am = Inr a'"
      by (auto simp: bind_e_Inr)
    show ?thesis
      using Cons.IH [OF rest] getitem2_setitem2 [OF s, of k l] w True by auto
  next
    case False
    with Cons.prems w have rest: "mark_loop i js a2 tmp a = Inr a'"
      by (auto simp: bind_e_def)
    show ?thesis
      using Cons.IH [OF rest] w False by auto
  qed
qed

lemma one_row:
  assumes s: "score_loop sc i [0..<n] a2 0 = Inr (a2', tmp)"
    and m: "mark_loop i [0..<n] a2' tmp a = Inr a'"
  shows "getitem2 a' k l = (if k = i \<and> tops sc n i l then Inr 1 else getitem2 a k l)"
proof -
  have mx: "0 \<le> tmp" "\<And>l. l < n \<Longrightarrow> \<exists>v. sc i l = Inr v \<and> v \<le> tmp"
    "tmp = 0 \<or> (\<exists>l < n. sc i l = Inr tmp)"
    using score_loop_max [OF s] by auto
  have ent: "\<And>l. l < n \<Longrightarrow> getitem2 a2' i l = sc i l"
    using score_loop_entries [OF s, of i] by simp
  have "(l \<in> set [0..<n] \<and> 0 < tmp \<and> (\<exists>w. getitem2 a2' i l = Inr w \<and> tmp \<le> w)) \<longleftrightarrow> tops sc n i l"
  proof
    assume h: "l \<in> set [0..<n] \<and> 0 < tmp \<and> (\<exists>w. getitem2 a2' i l = Inr w \<and> tmp \<le> w)"
    then obtain w where w: "l < n" "0 < tmp" "sc i l = Inr w" "tmp \<le> w"
      using ent by auto
    from mx(2) [OF w(1)] w(3,4) have "w = tmp" by auto
    with w mx(2) show "tops sc n i l" unfolding tops_def by auto
  next
    assume "tops sc n i l"
    then obtain w where w: "l < n" "sc i l = Inr w" "0 < w"
      "\<forall>l' < n. \<exists>w'. sc i l' = Inr w' \<and> w' \<le> w"
      unfolding tops_def by auto
    from mx(2) [OF w(1)] w(2) have le: "w \<le> tmp" by auto
    from mx(3) w(3,4) have ge: "tmp \<le> w" by fastforce
    from le ge w ent show "l \<in> set [0..<n] \<and> 0 < tmp \<and> (\<exists>w. getitem2 a2' i l = Inr w \<and> tmp \<le> w)"
      by auto
  qed
  then show ?thesis
    using mark_loop_entries [OF m, of k l] by auto
qed

lemma row_loop_act:
  "row_loop sc n rows st = Inr st' \<Longrightarrow>
   getitem2 (act st') k l =
     (if k \<in> set rows \<and> tops sc n k l then Inr 1 else getitem2 (act st) k l)"
proof (induction rows arbitrary: st)
  case Nil
  then show ?case by simp
next
  case (Cons i rows)
  from Cons.prems obtain a2 tmp a where
    s: "score_loop sc i [0..<n] (viol st) 0 = Inr (a2, tmp)"
    and m: "mark_loop i [0..<n] a2 tmp (act st) = Inr a"
    and rest: "row_loop sc n rows
         \<lparr>viol = a2, act = a, activetmp = Some tmp,
          activetmp1 = (if tmp > activetmp1 st then tmp else activetmp1 st)\<rparr> = Inr st'"
    by (auto simp: bind_e_Inr)
  show ?case
    using Cons.IH [OF rest] one_row [OF s m, of k l] by auto
qed


lemma row_loop_scores:
  "row_loop sc n rows st = Inr st' \<Longrightarrow> k \<in> set rows \<Longrightarrow> l < n \<Longrightarrow> \<exists>w. sc k l = Inr w"
proof (induction rows arbitrary: st)
  case Nil
  then show ?case by simp
next
  case (Cons i rows)
  from Cons.prems(1) obtain a2 tmp a where
    s: "score_loop sc i [0..<n] (viol st) 0 = Inr (a2, tmp)"
    and m: "mark_loop i [0..<n] a2 tmp (act st) = Inr a"
    and rest: "row_loop sc n rows
         \<lparr>viol = a2, act = a, activetmp = Some tmp,
          activetmp1 = (if tmp > activetmp1 st then tmp else activetmp1 st)\<rparr> = Inr st'"
    by (auto simp: bind_e_Inr)
  show ?case
  proof (cases "k = i")
    case True
    with score_loop_max [OF s] Cons.prems(3) show ?thesis by auto
  next
    case False
    with Cons.prems(2) have "k \<in> set rows" by simp
    from Cons.IH [OF rest this Cons.prems(3)] show ?thesis .
  qed
qed

lemma tops_row_maximum:
  assumes all: "\<forall>l' < n. \<exists>w. sc i l' = Inr w" and l: "l < n"
  shows "tops sc n i l \<longleftrightarrow>
         0 < row_maximum sc n i \<and> sc i l = Inr (row_maximum sc n i)"
proof -
  let ?f = "\<lambda>j. projr (sc i j)"
  let ?S = "set (map ?f [0..<n])"
  have fin: "finite ?S" by simp
  have mem: "\<And>l'. l' < n \<Longrightarrow> ?f l' \<in> ?S" by auto
  have ne: "?S \<noteq> {}" using l by auto
  have val: "\<And>l'. l' < n \<Longrightarrow> sc i l' = Inr (?f l')"
    using all by fastforce
  have M: "row_maximum sc n i = Max ?S" by (simp add: row_maximum_def)
  show ?thesis
  proof
    assume "tops sc n i l"
    then obtain w where w: "sc i l = Inr w" "0 < w"
      "\<forall>l' < n. \<exists>w'. sc i l' = Inr w' \<and> w' \<le> w"
      unfolding tops_def by auto
    have "w \<in> ?S" using mem [OF l] w(1) by simp
    moreover have "\<And>y. y \<in> ?S \<Longrightarrow> y \<le> w" using w(3) by fastforce
    ultimately have "Max ?S = w" using fin by (intro Max_eqI) auto
    with w M show "0 < row_maximum sc n i \<and> sc i l = Inr (row_maximum sc n i)" by simp
  next
    assume h: "0 < row_maximum sc n i \<and> sc i l = Inr (row_maximum sc n i)"
    have "\<forall>l' < n. \<exists>w'. sc i l' = Inr w' \<and> w' \<le> row_maximum sc n i"
    proof (intro allI impI)
      fix l' assume l': "l' < n"
      have "?f l' \<le> Max ?S" using fin mem [OF l'] by (intro Max_ge) auto
      with val [OF l'] M show "\<exists>w'. sc i l' = Inr w' \<and> w' \<le> row_maximum sc n i" by auto
    qed
    with h l show "tops sc n i l" unfolding tops_def by auto
  qed
qed

lemma convergence_test_dispatch:
  "convergence_test K self alpha beta delta =
     (case violation K self alpha beta delta of
        None \<Rightarrow> Inl (UnboundLocalError ''activetmp'')
      | Some sc \<Rightarrow>
          bind_e (row_loop sc (length (self_x self)) [0..<length (self_x self)]
                    \<lparr>viol = active2 self, act = active self, activetmp = None, activetmp1 = 0\<rparr>)
            (\<lambda>st. bind_e (return_activetmp st) (\<lambda>r.
               Inr (r, self\<lparr>active2 := viol st, active := act st\<rparr>))))"
  by (simp add: convergence_test_def violation_def Let_def bind_e_def return_activetmp_def)

lemma convergence_test_weak_dispatch:
  "convergence_test_weak K self alpha beta delta =
     (case violation_weak K self alpha beta delta of
        None \<Rightarrow> Inl (UnboundLocalError ''activetmp'')
      | Some sc \<Rightarrow>
          bind_e (row_loop sc (length (self_x self)) [0..<length (self_x self)]
                    \<lparr>viol = activeweak2 self, act = activeweak self, activetmp = None,
                      activetmp1 = 0\<rparr>)
            (\<lambda>st. bind_e (return_activetmp st) (\<lambda>r.
               Inr (r, self\<lparr>activeweak2 := viol st, activeweak := act st\<rparr>))))"
  by (simp add: convergence_test_weak_def violation_weak_def Let_def bind_e_def
      return_activetmp_def)

lemma convergence_test_Inr:
  assumes "convergence_test K self alpha beta delta = Inr (r, self')"
  obtains sc st where "violation K self alpha beta delta = Some sc"
    and "row_loop sc (length (self_x self)) [0..<length (self_x self)]
           \<lparr>viol = active2 self, act = active self, activetmp = None, activetmp1 = 0\<rparr> = Inr st"
    and "activetmp st = Some r"
    and "self' = self\<lparr>active2 := viol st, active := act st\<rparr>"
  using assms unfolding convergence_test_dispatch
  by (auto simp: bind_e_Inr return_activetmp_def split: option.splits)

lemma convergence_test_weak_Inr:
  assumes "convergence_test_weak K self alpha beta delta = Inr (r, self')"
  obtains sc st where "violation_weak K self alpha beta delta = Some sc"
    and "row_loop sc (length (self_x self)) [0..<length (self_x self)]
           \<lparr>viol = activeweak2 self, act = activeweak self, activetmp = None,
             activetmp1 = 0\<rparr> = Inr st"
    and "activetmp st = Some r"
    and "self' = self\<lparr>activeweak2 := viol st, activeweak := act st\<rparr>"
  using assms unfolding convergence_test_weak_dispatch
  by (auto simp: bind_e_Inr return_activetmp_def split: option.splits)

lemma scan_marks:
  assumes r: "row_loop sc n [0..<n] st = Inr st'" and i: "i < n" and j: "j < n"
  shows "getitem2 (act st') i j =
           (if 0 < row_maximum sc n i \<and> sc i j = Inr (row_maximum sc n i) then Inr 1
            else getitem2 (act st) i j)"
proof -
  have all: "\<forall>l' < n. \<exists>w. sc i l' = Inr w"
    using row_loop_scores [OF r, of i] i by simp
  show ?thesis
    using row_loop_act [OF r, of i j] tops_row_maximum [of n sc i j] all i j by simp
qed


subsection \<open>Which entries a scan marks\<close>

text \<open>
  Claim C7. In a scan that returns, for each row \<open>i\<close> and column \<open>j\<close> of the \<open>n\<close> units:
  when the maximum of the scores of row \<open>i\<close> is positive, the entry \<open>(i, j)\<close> of the active
  matrix is 1 after the scan if the score of \<open>(i, j)\<close> is that maximum (so every tied
  maximizer is marked) and is left as it was otherwise; when the maximum is not positive
  the entry is left as it was. This holds for the concavity scan on \<^verbatim>\<open>active\<close> and for the
  weak-disposability scan on \<^verbatim>\<open>activeweak\<close>, in each of the four regimes.
\<close>

theorem marks_row_maximizers:
  "(convergence_test K self alpha beta delta = Inr (r, self') \<and>
      i < length (self_x self) \<and> j < length (self_x self) \<longrightarrow>
      (\<exists>sc. violation K self alpha beta delta = Some sc \<and>
         getitem2 (active self') i j =
           (if 0 < row_maximum sc (length (self_x self)) i \<and>
               sc i j = Inr (row_maximum sc (length (self_x self)) i)
            then Inr 1 else getitem2 (active self) i j))) \<and>
   (convergence_test_weak K self alpha beta delta = Inr (rw, selfw) \<and>
      i < length (self_x self) \<and> j < length (self_x self) \<longrightarrow>
      (\<exists>sc. violation_weak K self alpha beta delta = Some sc \<and>
         getitem2 (activeweak selfw) i j =
           (if 0 < row_maximum sc (length (self_x self)) i \<and>
               sc i j = Inr (row_maximum sc (length (self_x self)) i)
            then Inr 1 else getitem2 (activeweak self) i j)))"
proof (intro conjI impI)
  assume h: "convergence_test K self alpha beta delta = Inr (r, self') \<and>
      i < length (self_x self) \<and> j < length (self_x self)"
  from h obtain sc st where v: "violation K self alpha beta delta = Some sc"
    and rl: "row_loop sc (length (self_x self)) [0..<length (self_x self)]
           \<lparr>viol = active2 self, act = active self, activetmp = None, activetmp1 = 0\<rparr> = Inr st"
    and s': "self' = self\<lparr>active2 := viol st, active := act st\<rparr>"
    by (auto elim: convergence_test_Inr)
  from scan_marks [OF rl] h v s'
  show "\<exists>sc. violation K self alpha beta delta = Some sc \<and>
         getitem2 (active self') i j =
           (if 0 < row_maximum sc (length (self_x self)) i \<and>
               sc i j = Inr (row_maximum sc (length (self_x self)) i)
            then Inr 1 else getitem2 (active self) i j)"
    by simp
next
  assume h: "convergence_test_weak K self alpha beta delta = Inr (rw, selfw) \<and>
      i < length (self_x self) \<and> j < length (self_x self)"
  from h obtain sc st where v: "violation_weak K self alpha beta delta = Some sc"
    and rl: "row_loop sc (length (self_x self)) [0..<length (self_x self)]
           \<lparr>viol = activeweak2 self, act = activeweak self, activetmp = None,
             activetmp1 = 0\<rparr> = Inr st"
    and s': "selfw = self\<lparr>activeweak2 := viol st, activeweak := act st\<rparr>"
    by (auto elim: convergence_test_weak_Inr)
  from scan_marks [OF rl] h v s'
  show "\<exists>sc. violation_weak K self alpha beta delta = Some sc \<and>
         getitem2 (activeweak selfw) i j =
           (if 0 < row_maximum sc (length (self_x self)) i \<and>
               sc i j = Inr (row_maximum sc (length (self_x self)) i)
            then Inr 1 else getitem2 (activeweak self) i j)"
    by simp
qed

text \<open>Unfolding the scans on the concrete inputs.\<close>

lemmas scan_eval =
  convergence_test_def convergence_test_weak_def violation_def violation_weak_def
  score_vrs_prod_def score_vrs_cost_def score_crs_prod_def score_crs_cost_def
  weak_vrs_prod_def weak_vrs_cost_def weak_crs_prod_def weak_crs_cost_def
  row_dot_def sum_prod_def broadcast_def item_def getitem2_def setitem2_def
  return_activetmp_def bind_e_def zeros_def init_attributes_def pystoned_constants_def
  example_self_def example_beta_def example_delta_def first_row_alpha_def
  last_row_alpha_def example_scanned_def example_scanned_weak_def
  row_maximum_def largest_violation_def upt_rec numeral_2_eq_2 Let_def

lemma scan_last_row:
  "convergence_test pystoned_constants example_self last_row_alpha example_beta example_delta
     = Inr (2, example_scanned)"
  by (simp add: scan_eval)

lemma scan_weak_last_row:
  "convergence_test_weak pystoned_constants example_self last_row_alpha example_beta
     example_delta = Inr (1, example_scanned_weak)"
  by (simp add: scan_eval)

theorem marks_row_maximizers_witness:
  "convergence_test pystoned_constants example_self last_row_alpha example_beta example_delta
     = Inr (2, example_scanned) \<and>
   (1::nat) < length (self_x example_self) \<and> (0::nat) < length (self_x example_self) \<and>
   getitem2 (active example_self) 1 0 = Inr 0 \<and>
   getitem2 (active example_scanned) 1 0 = Inr 1 \<and>
   convergence_test_weak pystoned_constants example_self last_row_alpha example_beta
     example_delta = Inr (1, example_scanned_weak) \<and>
   getitem2 (activeweak example_self) 1 0 = Inr 0 \<and>
   getitem2 (activeweak example_scanned_weak) 1 0 = Inr 1"
proof -
  have len: "(1::nat) < length (self_x example_self)" "(0::nat) < length (self_x example_self)"
    by (simp_all add: example_self_def init_attributes_def)
  note inst = marks_row_maximizers [of pystoned_constants example_self last_row_alpha
      example_beta example_delta 2 example_scanned 1 0 1 example_scanned_weak]
  from inst scan_last_row len
  have a: "\<exists>sc. violation pystoned_constants example_self last_row_alpha example_beta
              example_delta = Some sc \<and>
         getitem2 (active example_scanned) 1 0 =
           (if 0 < row_maximum sc (length (self_x example_self)) 1 \<and>
               sc 1 0 = Inr (row_maximum sc (length (self_x example_self)) 1)
            then Inr 1 else getitem2 (active example_self) 1 0)"
    by blast
  have "getitem2 (active example_scanned) 1 0 = Inr 1"
    using a by (simp add: scan_eval)
  moreover have "getitem2 (activeweak example_scanned_weak) 1 0 = Inr 1"
    by (simp add: scan_eval)
  moreover have "getitem2 (active example_self) 1 0 = Inr 0"
    "getitem2 (activeweak example_self) 1 0 = Inr 0"
    by (simp_all add: scan_eval)
  ultimately show ?thesis
    using scan_last_row scan_weak_last_row len by simp
qed

subsection \<open>What a scan returns\<close>

text \<open>
  Claim C1 says that a scan returns the largest score over all ordered pairs, or 0 when
  no score is positive. The scans return the accumulator of the row scanned last. On the
  two units of \<open>example_self\<close> with the intercepts \<open>first_row_alpha\<close> the concavity scores are
  0 and 2 in the first row, -2 and 0 in the last: the largest is 2 and the concavity scan
  returns 0. The weak-disposability scores are 0 and 2 in the first row, -1 and 1 in the
  last: the largest is 2 and the weak-disposability scan returns 1.
\<close>

theorem returns_last_row_maximum:
  "map_sum id fst (convergence_test pystoned_constants example_self first_row_alpha
       example_beta example_delta) = Inr 0 \<and>
   map_option (\<lambda>sc. largest_violation sc 2)
     (violation pystoned_constants example_self first_row_alpha example_beta example_delta)
     = Some 2 \<and>
   map_sum id fst (convergence_test_weak pystoned_constants example_self first_row_alpha
       example_beta example_delta) = Inr 1 \<and>
   map_option (\<lambda>sc. largest_violation sc 2)
     (violation_weak pystoned_constants example_self first_row_alpha example_beta
        example_delta) = Some 2"
  by (simp add: scan_eval)

text \<open>
  In general, on at least one unit, a scan that returns gives back the accumulator of the
  last row: the maximum of the scores of that row, or 0 when none is positive. The largest
  score over all rows is what the local \<^verbatim>\<open>activetmp1\<close> holds when the loops end; no statement
  reads it.
\<close>

lemma row_accumulator:
  assumes s: "score_loop sc i [0..<n] a2 0 = Inr (a2', tmp)" and n: "0 < n"
  shows "tmp = max 0 (row_maximum sc n i)"
proof -
  let ?f = "\<lambda>j. projr (sc i j)"
  let ?S = "set (map ?f [0..<n])"
  have mx: "0 \<le> tmp" "\<And>l. l < n \<Longrightarrow> \<exists>v. sc i l = Inr v \<and> v \<le> tmp"
    "tmp = 0 \<or> (\<exists>l < n. sc i l = Inr tmp)"
    using score_loop_max [OF s] by auto
  have fin: "finite ?S" and ne: "?S \<noteq> {}" using n by auto
  have le: "Max ?S \<le> tmp"
  proof (rule Max.boundedI [OF fin ne])
    fix a assume "a \<in> ?S"
    then obtain l where "l < n" "a = ?f l" by auto
    with mx(2) [of l] show "a \<le> tmp" by auto
  qed
  have ge: "tmp \<le> max 0 (Max ?S)"
  proof (cases "tmp = 0")
    case True
    then show ?thesis by simp
  next
    case False
    with mx(3) obtain l where l: "l < n" "sc i l = Inr tmp" by auto
    then have "tmp \<in> ?S" by force
    with fin have "tmp \<le> Max ?S" by (rule_tac Max_ge)
    then show ?thesis by simp
  qed
  from le ge mx(1) show ?thesis by (simp add: row_maximum_def)
qed

lemma row_loop_returns:
  assumes "row_loop sc n rows st = Inr st'" and "0 < n"
  shows "activetmp st' =
           (if rows = [] then activetmp st else Some (max 0 (row_maximum sc n (last rows))))"
  using assms
proof (induction rows arbitrary: st)
  case Nil
  then show ?case by simp
next
  case (Cons i rows)
  from Cons.prems(1) obtain a2 tmp a where
    s: "score_loop sc i [0..<n] (viol st) 0 = Inr (a2, tmp)"
    and rest: "row_loop sc n rows
         \<lparr>viol = a2, act = a, activetmp = Some tmp,
          activetmp1 = (if tmp > activetmp1 st then tmp else activetmp1 st)\<rparr> = Inr st'"
    by (auto simp: bind_e_Inr)
  have t: "tmp = max 0 (row_maximum sc n i)"
    by (rule row_accumulator [OF s Cons.prems(2)])
  from Cons.IH [OF rest Cons.prems(2)] t show ?case
    by simp
qed

lemma row_loop_accumulator:
  assumes "row_loop sc n rows st = Inr st'" and "0 < n"
  shows "activetmp1 st \<le> activetmp1 st' \<and>
         (\<forall>i \<in> set rows. max 0 (row_maximum sc n i) \<le> activetmp1 st') \<and>
         (activetmp1 st' = activetmp1 st \<or>
          (\<exists>i \<in> set rows. activetmp1 st' = max 0 (row_maximum sc n i)))"
  using assms
proof (induction rows arbitrary: st)
  case Nil
  then show ?case by simp
next
  case (Cons i rows)
  from Cons.prems(1) obtain a2 tmp a where
    s: "score_loop sc i [0..<n] (viol st) 0 = Inr (a2, tmp)"
    and rest: "row_loop sc n rows
         \<lparr>viol = a2, act = a, activetmp = Some tmp,
          activetmp1 = (if tmp > activetmp1 st then tmp else activetmp1 st)\<rparr> = Inr st'"
    by (auto simp: bind_e_Inr)
  have t: "tmp = max 0 (row_maximum sc n i)"
    by (rule row_accumulator [OF s Cons.prems(2)])
  from Cons.IH [OF rest Cons.prems(2)] t show ?case
    by (auto split: if_splits)
qed

lemma scan_accumulates_largest:
  assumes r: "row_loop sc n [0..<n] \<lparr>viol = v0, act = a0, activetmp = None, activetmp1 = 0\<rparr>
      = Inr st"
    and n: "0 < n"
  shows "activetmp1 st = largest_violation sc n"
proof -
  let ?S = "set (0 # map (row_maximum sc n) [0..<n])"
  from row_loop_accumulator [OF r n]
  have ge0: "0 \<le> activetmp1 st"
    and ub: "\<And>i. i < n \<Longrightarrow> max 0 (row_maximum sc n i) \<le> activetmp1 st"
    and at: "activetmp1 st = 0 \<or> (\<exists>i < n. activetmp1 st = max 0 (row_maximum sc n i))"
    by auto
  have mem: "activetmp1 st \<in> ?S"
  proof -
    from at show ?thesis
    proof
      assume "activetmp1 st = 0"
      then show ?thesis by simp
    next
      assume "\<exists>i < n. activetmp1 st = max 0 (row_maximum sc n i)"
      then obtain i where i: "i < n" "activetmp1 st = max 0 (row_maximum sc n i)" by blast
      show ?thesis
      proof (cases "0 \<le> row_maximum sc n i")
        case True
        with i have "activetmp1 st = row_maximum sc n i" by simp
        with i(1) show ?thesis by auto
      next
        case False
        with i have "activetmp1 st = 0" by simp
        then show ?thesis by simp
      qed
    qed
  qed
  have bound: "\<And>y. y \<in> ?S \<Longrightarrow> y \<le> activetmp1 st"
    using ge0 ub by fastforce
  have "Max ?S = activetmp1 st"
    by (rule Max_eqI) (use mem bound in auto)
  then show ?thesis by (simp add: largest_violation_def)
qed

lemma scan_returns_last_row:
  assumes "convergence_test K self alpha beta delta = Inr (r, self')"
    and "0 < length (self_x self)"
  shows "\<exists>sc. violation K self alpha beta delta = Some sc \<and>
           r = max 0 (row_maximum sc (length (self_x self)) (length (self_x self) - 1))"
proof -
  let ?n = "length (self_x self)"
  from assms(1) obtain sc st where v: "violation K self alpha beta delta = Some sc"
    and rl: "row_loop sc ?n [0..<?n]
           \<lparr>viol = active2 self, act = active self, activetmp = None, activetmp1 = 0\<rparr> = Inr st"
    and r: "activetmp st = Some r"
    by (auto elim: convergence_test_Inr)
  from assms(2) have "[0..<?n] \<noteq> []" "last [0..<?n] = ?n - 1"
    by (simp_all add: last_upt)
  with row_loop_returns [OF rl assms(2)] r v show ?thesis by simp
qed

lemma weak_scan_returns_last_row:
  assumes "convergence_test_weak K self alpha beta delta = Inr (r, self')"
    and "0 < length (self_x self)"
  shows "\<exists>sc. violation_weak K self alpha beta delta = Some sc \<and>
           r = max 0 (row_maximum sc (length (self_x self)) (length (self_x self) - 1))"
proof -
  let ?n = "length (self_x self)"
  from assms(1) obtain sc st where v: "violation_weak K self alpha beta delta = Some sc"
    and rl: "row_loop sc ?n [0..<?n]
           \<lparr>viol = activeweak2 self, act = activeweak self, activetmp = None,
             activetmp1 = 0\<rparr> = Inr st"
    and r: "activetmp st = Some r"
    by (auto elim: convergence_test_weak_Inr)
  from assms(2) have "[0..<?n] \<noteq> []" "last [0..<?n] = ?n - 1"
    by (simp_all add: last_upt)
  with row_loop_returns [OF rl assms(2)] r v show ?thesis by simp
qed

subsection \<open>A regime that no branch recognizes\<close>

text \<open>
  Claim C10. When the pair of returns to scale and frontier direction of the object
  matches none of the four branches, both scans raise \<^verbatim>\<open>UnboundLocalError\<close> for the local
  \<^verbatim>\<open>activetmp\<close> at their \<^verbatim>\<open>return\<close> statement, whatever the fitted values: they neither
  return a value nor raise a configuration error.
\<close>

theorem unrecognized_regime_unbound_local:
  assumes "\<not> (self_rts self = RTS_VRS K \<and> self_fun self = FUN_PROD K)"
    and "\<not> (self_rts self = RTS_VRS K \<and> self_fun self = FUN_COST K)"
    and "\<not> (self_rts self = RTS_CRS K \<and> self_fun self = FUN_PROD K)"
    and "\<not> (self_rts self = RTS_CRS K \<and> self_fun self = FUN_COST K)"
  shows "convergence_test K self alpha beta delta = Inl (UnboundLocalError ''activetmp'') \<and>
         convergence_test_weak K self alpha beta delta = Inl (UnboundLocalError ''activetmp'')"
proof -
  have "violation K self alpha beta delta = None"
    using assms by (auto simp: violation_def)
  moreover have "violation_weak K self alpha beta delta = None"
    using assms by (auto simp: violation_weak_def)
  ultimately show ?thesis
    by (simp add: convergence_test_dispatch convergence_test_weak_dispatch)
qed

theorem unrecognized_regime_unbound_local_witness:
  "convergence_test pystoned_constants (example_self\<lparr>self_rts := ''drs''\<rparr>) last_row_alpha
     example_beta example_delta = Inl (UnboundLocalError ''activetmp'') \<and>
   convergence_test_weak pystoned_constants (example_self\<lparr>self_rts := ''drs''\<rparr>)
     last_row_alpha example_beta example_delta = Inl (UnboundLocalError ''activetmp'')"
  using unrecognized_regime_unbound_local [of "example_self\<lparr>self_rts := ''drs''\<rparr>"
      pystoned_constants last_row_alpha example_beta example_delta]
  by (simp add: pystoned_constants_def)


section \<open>Properties of \<^verbatim>\<open>optimize\<close>\<close>

lemma grows_refl: "grows m m"
  by (simp add: grows_def)

lemma grows_trans: "grows a b \<Longrightarrow> grows b c \<Longrightarrow> grows a c"
  by (simp add: grows_def)

lemma row_loop_grows: "row_loop sc n rows st = Inr st' \<Longrightarrow> grows (act st) (act st')"
  unfolding grows_def using row_loop_act [of sc n rows st st'] by simp

lemma convergence_test_frame:
  assumes "convergence_test K self alpha beta delta = Inr (r, self')"
  shows "grows (active self) (active self') \<and> activeweak self' = activeweak self \<and>
         activeweak2 self' = activeweak2 self \<and>
         self' = self\<lparr>active2 := active2 self', active := active self'\<rparr>"
proof -
  from assms obtain sc st where
    rl: "row_loop sc (length (self_x self)) [0..<length (self_x self)]
           \<lparr>viol = active2 self, act = active self, activetmp = None, activetmp1 = 0\<rparr> = Inr st"
    and s': "self' = self\<lparr>active2 := viol st, active := act st\<rparr>"
    by (auto elim: convergence_test_Inr)
  from row_loop_grows [OF rl] s' show ?thesis by simp
qed

lemma convergence_test_weak_frame:
  assumes "convergence_test_weak K self alpha beta delta = Inr (r, self')"
  shows "grows (activeweak self) (activeweak self') \<and> active self' = active self \<and>
         active2 self' = active2 self \<and>
         self' = self\<lparr>activeweak2 := activeweak2 self', activeweak := activeweak self'\<rparr>"
proof -
  from assms obtain sc st where
    rl: "row_loop sc (length (self_x self)) [0..<length (self_x self)]
           \<lparr>viol = activeweak2 self, act = activeweak self, activetmp = None,
             activetmp1 = 0\<rparr> = Inr st"
    and s': "self' = self\<lparr>activeweak2 := viol st, activeweak := act st\<rparr>"
    by (auto elim: convergence_test_weak_Inr)
  from row_loop_grows [OF rl] s' show ?thesis by simp
qed

lemma loop_condition_cases:
  assumes "loop_condition K self = Inr (c, self')"
  obtains alpha beta delta r1 where
      "self_alpha self = Some alpha" "self_beta self = Some beta" "self_delta self = Some delta"
      "convergence_test K self alpha beta delta = Inr (r1, self')" "r1 > 0.0001" "c"
  | alpha beta delta r1 self1 r2 where
      "self_alpha self = Some alpha" "self_beta self = Some beta" "self_delta self = Some delta"
      "convergence_test K self alpha beta delta = Inr (r1, self1)" "\<not> r1 > 0.0001"
      "convergence_test_weak K self1 alpha beta delta = Inr (r2, self')" "c \<longleftrightarrow> r2 > 0.0001"
proof -
  from assms obtain alpha beta delta r1 self1 where
    a: "self_alpha self = Some alpha" "self_beta self = Some beta" "self_delta self = Some delta"
    and ct: "convergence_test K self alpha beta delta = Inr (r1, self1)"
    and rest: "(if r1 > 0.0001 then Inr (True, self1)
         else bind_e (convergence_test_weak K self1 alpha beta delta) (\<lambda>(r2, self2).
              Inr (r2 > 0.0001, self2))) = Inr (c, self')"
    unfolding loop_condition_def
    by (auto simp: bind_e_Inr attr_def split: option.splits simp del: divide_less_eq_numeral1
        less_divide_eq_numeral1)
  show thesis
  proof (cases "r1 > 0.0001")
    case True
    with rest have "c" "self' = self1" by simp_all
    with that(1) a ct True show thesis by blast
  next
    case False
    with rest obtain r2 where "convergence_test_weak K self1 alpha beta delta = Inr (r2, self')"
      "c \<longleftrightarrow> r2 > 0.0001"
      by (auto simp: bind_e_Inr)
    with that(2) a ct False show thesis by blast
  qed
qed

lemma loop_condition_grows:
  assumes "loop_condition K self = Inr (c, self')"
  shows "grows (active self) (active self') \<and> grows (activeweak self) (activeweak self')"
  using assms
proof (cases rule: loop_condition_cases)
  case (1 alpha beta delta r1)
  from convergence_test_frame [OF 1(4)] show ?thesis by (simp add: grows_refl)
next
  case (2 alpha beta delta r1 self1 r2)
  from convergence_test_frame [OF 2(4)] convergence_test_weak_frame [OF 2(6)]
  show ?thesis by (auto simp: grows_refl)
qed

lemma loop_body_frame:
  assumes "loop_body C email solver self = Inr self'"
  shows "active self' = active self \<and> activeweak self' = activeweak self"
  using assms unfolding loop_body_def store_fit_def
  by (auto simp: bind_e_Inr)

lemma while_loop_grows:
  assumes "while_loop K C email solver self = Some res"
  shows "\<forall>self'. res = Inr self' \<longrightarrow>
           grows (active self) (active self') \<and> grows (activeweak self) (activeweak self')"
proof (rule while_loop.raw_induct
    [where P = "\<lambda>K C email solver self res. \<forall>self'. res = Inr self' \<longrightarrow>
           grows (active self) (active self') \<and> grows (activeweak self) (activeweak self')",
     OF _ assms], goal_cases)
  case (1 f K C email solver self res)
  show ?case
  proof (intro allI impI)
    fix self' assume res: "res = Inr self'"
    from 1(2) res obtain c self1 where lc: "loop_condition K self = Inr (c, self1)"
      by (auto split: sum.splits)
    note g1 = loop_condition_grows [OF lc]
    show "grows (active self) (active self') \<and> grows (activeweak self) (activeweak self')"
    proof (cases c)
      case True
      with 1(2) lc res obtain self2 where lb: "loop_body C email solver self1 = Inr self2"
        and rec: "f K C email solver self2 = Some (Inr self')"
        by (auto split: sum.splits)
      from 1(1) [OF rec] have "grows (active self2) (active self') \<and>
          grows (activeweak self2) (activeweak self')" by simp
      with loop_body_frame [OF lb] g1 show ?thesis
        by (auto intro: grows_trans)
    next
      case False
      with 1(2) lc res have "self' = self1" by simp
      with g1 show ?thesis by simp
    qed
  qed
qed

lemma optimize_Inr:
  assumes "optimize K C self email solver = Some (Inr self')"
  obtains fit self1 where "first_pass C self email solver = Inr fit"
    and "while_loop K C email solver ((store_fit fit self)\<lparr>count := Some 0\<rparr>) = Some (Inr self1)"
    and "self' = self1\<lparr>optimization_status := 1\<rparr>"
  using assms unfolding optimize_def
  by (auto split: sum.splits option.splits)

lemma optimize_grows:
  assumes "optimize K C self email solver = Some (Inr self')"
  shows "grows (active self) (active self') \<and> grows (activeweak self) (activeweak self')"
proof -
  from assms obtain fit self1 where
    w: "while_loop K C email solver ((store_fit fit self)\<lparr>count := Some 0\<rparr>) = Some (Inr self1)"
    and s': "self' = self1\<lparr>optimization_status := 1\<rparr>"
    by (rule optimize_Inr)
  from while_loop_grows [OF w] s' show ?thesis
    by (simp add: store_fit_def)
qed

subsection \<open>The active matrices only grow\<close>

text \<open>
  Claim C3. Entries of \<^verbatim>\<open>active\<close> and of \<^verbatim>\<open>activeweak\<close> that are 1 stay 1: through every
  evaluation of the loop condition (the scans), through every loop body (which leaves both
  matrices as they are), hence from one iteration to the next, and from the call of
  \<^verbatim>\<open>optimize\<close> to its return.
\<close>

theorem active_entries_never_reset:
  "(loop_condition K self = Inr (c, self1) \<longrightarrow>
      grows (active self) (active self1) \<and> grows (activeweak self) (activeweak self1)) \<and>
   (loop_body C email solver self1 = Inr self2 \<longrightarrow>
      active self2 = active self1 \<and> activeweak self2 = activeweak self1) \<and>
   (optimize K C self0 email solver = Some (Inr self') \<longrightarrow>
      grows (active self0) (active self') \<and> grows (activeweak self0) (activeweak self'))"
  using loop_condition_grows [of K self c self1] loop_body_frame [of C email solver self1 self2]
    optimize_grows [of K C self0 email solver self']
  by blast

theorem active_entries_never_reset_witness:
  "loop_condition pystoned_constants example_head = Inr (True, example_head_scanned) \<and>
   loop_body example_collaborators None None example_head_scanned = Inr example_head2 \<and>
   optimize pystoned_constants example_collaborators example_start None None
     = Some (Inr example_final) \<and>
   getitem2 (active example_start) 0 1 = Inr 1 \<and>
   getitem2 (active example_head) 0 1 = Inr 1 \<and>
   getitem2 (active example_head_scanned) 0 1 = Inr 1 \<and>
   getitem2 (active example_head2) 0 1 = Inr 1 \<and>
   getitem2 (active example_final) 0 1 = Inr 1 \<and>
   getitem2 (active example_final) 1 0 = Inr 1"
proof -
  have c: "loop_condition pystoned_constants example_head = Inr (True, example_head_scanned)"
    by code_simp
  have b: "loop_body example_collaborators None None example_head_scanned = Inr example_head2"
    by code_simp
  have opt: "optimize pystoned_constants example_collaborators example_start None None
     = Some (Inr example_final)"
    by code_simp
  have s: "getitem2 (active example_start) 0 1 = Inr 1" "getitem2 (active example_head) 0 1 = Inr 1"
    by code_simp+
  note inst = active_entries_never_reset [of pystoned_constants example_head True
      example_head_scanned example_collaborators None None example_head2 example_start
      example_final]
  from inst c b opt have g: "grows (active example_head) (active example_head_scanned)"
    "active example_head2 = active example_head_scanned"
    "grows (active example_start) (active example_final)"
    by blast+
  from g s have "getitem2 (active example_head_scanned) 0 1 = Inr 1"
    "getitem2 (active example_head2) 0 1 = Inr 1"
    "getitem2 (active example_final) 0 1 = Inr 1"
    unfolding grows_def by auto
  moreover have "getitem2 (active example_final) 1 0 = Inr 1"
    by code_simp
  ultimately show ?thesis using c b opt s by simp
qed

subsection \<open>When the loop goes on\<close>

text \<open>
  Claim C4 says that after each solve both statistics are recomputed and that the loop
  goes on exactly when one of them exceeds 0.0001. As stated it fails: with the fit of
  the first pass of the concrete run the concavity statistic is 2, the loop condition is
  true without the weak-disposability scan having run, and the object it leaves is not
  the one that scan leaves (the scan would return 1 and mark two entries of
  \<^verbatim>\<open>activeweak\<close>, which stays all zero).
\<close>

theorem weak_statistic_not_recomputed:
  "loop_condition pystoned_constants example_head = Inr (True, example_head_scanned) \<and>
   convergence_test pystoned_constants example_head last_row_alpha example_beta example_delta
     = Inr (2, example_head_scanned) \<and>
   convergence_test_weak pystoned_constants example_head_scanned last_row_alpha example_beta
     example_delta = Inr (1, example_head_weak_scanned) \<and>
   activeweak example_head_scanned = [[0, 0], [0, 0]] \<and>
   activeweak example_head_weak_scanned = [[1, 0], [1, 0]] \<and>
   example_head_scanned \<noteq> example_head_weak_scanned"
  by code_simp

lemma convergence_test_weak_independent:
  "convergence_test_weak K (self\<lparr>active2 := A2, active := A\<rparr>) alpha beta delta =
     map_sum id (\<lambda>(r, s). (r, s\<lparr>active2 := A2, active := A\<rparr>))
       (convergence_test_weak K self alpha beta delta)"
  by (auto simp: convergence_test_weak_dispatch violation_weak_def bind_e_def Let_def
      return_activetmp_def split: sum.splits option.splits)

text \<open>
  Claim C4, amended. At the head of the loop, when the concavity scan returns \<open>r1\<close>:
  if \<open>r1\<close> exceeds 0.0001 the condition is true and the weak-disposability scan does not
  run (\<^verbatim>\<open>activeweak\<close> and \<^verbatim>\<open>activeweak2\<close> are as before); otherwise the weak-disposability
  scan runs on the object the concavity scan has left and the condition is whether its
  result exceeds 0.0001. Whenever the weak-disposability scan would return \<open>r2\<close>, the
  condition is true exactly when \<open>r1\<close> or \<open>r2\<close> exceeds 0.0001. The loop runs its body and
  comes back to its head when the condition is true, and returns when it is false.
\<close>

theorem loop_continues_short_circuit:
  assumes a: "self_alpha self = Some alpha" "self_beta self = Some beta"
      "self_delta self = Some delta"
    and ct: "convergence_test K self alpha beta delta = Inr (r1, self1)"
  shows "(r1 > 0.0001 \<longrightarrow>
            loop_condition K self = Inr (True, self1) \<and>
            activeweak self1 = activeweak self \<and> activeweak2 self1 = activeweak2 self) \<and>
         (\<not> r1 > 0.0001 \<longrightarrow>
            loop_condition K self =
              bind_e (convergence_test_weak K self1 alpha beta delta) (\<lambda>(r2, self2).
                Inr (r2 > 0.0001, self2))) \<and>
         (\<forall>r2 selfw. convergence_test_weak K self alpha beta delta = Inr (r2, selfw) \<longrightarrow>
            (\<exists>self2. loop_condition K self = Inr (r1 > 0.0001 \<or> r2 > 0.0001, self2))) \<and>
         (\<forall>c s1. loop_condition K self = Inr (c, s1) \<longrightarrow>
            while_loop K C email solver self =
              (if c then
                 (case loop_body C email solver s1 of
                    Inl e \<Rightarrow> Some (Inl e)
                  | Inr s2 \<Rightarrow> while_loop K C email solver s2)
               else Some (Inr s1)))"
proof -
  have lc: "loop_condition K self =
      (if r1 > 0.0001 then Inr (True, self1)
       else bind_e (convergence_test_weak K self1 alpha beta delta) (\<lambda>(r2, self2).
                Inr (r2 > 0.0001, self2)))"
    unfolding loop_condition_def using a ct by (simp add: attr_def bind_e_def)
  have fr: "activeweak self1 = activeweak self \<and> activeweak2 self1 = activeweak2 self"
    and s1: "self1 = self\<lparr>active2 := active2 self1, active := active self1\<rparr>"
    using convergence_test_frame [OF ct] by simp_all
  have third: "\<exists>self2. loop_condition K self = Inr (r1 > 0.0001 \<or> r2 > 0.0001, self2)"
    if w: "convergence_test_weak K self alpha beta delta = Inr (r2, selfw)" for r2 selfw
  proof (cases "r1 > 0.0001")
    case True
    with lc show ?thesis by simp
  next
    case False
    have "convergence_test_weak K self1 alpha beta delta =
        Inr (r2, selfw\<lparr>active2 := active2 self1, active := active self1\<rparr>)"
      by (subst s1, subst convergence_test_weak_independent) (simp add: w)
    with lc False show ?thesis by (simp add: bind_e_def)
  qed
  have fourth: "while_loop K C email solver self =
              (if c then
                 (case loop_body C email solver s1 of
                    Inl e \<Rightarrow> Some (Inl e)
                  | Inr s2 \<Rightarrow> while_loop K C email solver s2)
               else Some (Inr s1))"
    if "loop_condition K self = Inr (c, s1)" for c s1
    by (subst while_loop.simps) (simp add: that)
  from lc fr third fourth show ?thesis by auto
qed

theorem loop_continues_short_circuit_witness:
  "self_alpha example_head = Some last_row_alpha \<and> self_beta example_head = Some example_beta \<and>
   self_delta example_head = Some example_delta \<and>
   convergence_test pystoned_constants example_head last_row_alpha example_beta example_delta
     = Inr (2, example_head_scanned) \<and>
   (2::real) > 0.0001 \<and>
   loop_condition pystoned_constants example_head = Inr (True, example_head_scanned) \<and>
   activeweak example_head_scanned = activeweak example_head \<and>
   self_alpha example_head2 = Some [0, 0] \<and>
   convergence_test pystoned_constants example_head2 [0, 0] example_beta example_delta
     = Inr (0, example_head2_scanned) \<and>
   \<not> (0::real) > 0.0001 \<and>
   convergence_test_weak pystoned_constants example_head2_scanned [0, 0] example_beta
     example_delta = Inr (0, example_head2_weak_scanned) \<and>
   loop_condition pystoned_constants example_head2 = Inr (False, example_head2_weak_scanned)"
proof -
  have a1: "self_alpha example_head = Some last_row_alpha"
    "self_beta example_head = Some example_beta" "self_delta example_head = Some example_delta"
    by code_simp+
  have c1: "convergence_test pystoned_constants example_head last_row_alpha example_beta
     example_delta = Inr (2, example_head_scanned)"
    by code_simp
  have a2: "self_alpha example_head2 = Some [0, 0]"
    "self_beta example_head2 = Some example_beta" "self_delta example_head2 = Some example_delta"
    by code_simp+
  have c2: "convergence_test pystoned_constants example_head2 [0, 0] example_beta example_delta
     = Inr (0, example_head2_scanned)"
    by code_simp
  have w2: "convergence_test_weak pystoned_constants example_head2_scanned [0, 0] example_beta
     example_delta = Inr (0, example_head2_weak_scanned)"
    by code_simp
  from loop_continues_short_circuit [OF a1 c1]
  have r1: "loop_condition pystoned_constants example_head = Inr (True, example_head_scanned)"
    "activeweak example_head_scanned = activeweak example_head"
    by simp_all
  from loop_continues_short_circuit [OF a2 c2] w2
  have r2: "loop_condition pystoned_constants example_head2
      = Inr (False, example_head2_weak_scanned)"
    by (simp add: bind_e_def)
  from a1 c1 a2 c2 w2 r1 r2 show ?thesis by simp
qed


section \<open>Properties of the constructor and of the accessors of \<open>weakCNLSG\<close>\<close>

text \<open>
  Claim C2. For every input and whatever the preselector and the validation would do,
  \<^verbatim>\<open>__init__\<close> raises \<^verbatim>\<open>TypeError\<close> at \<^verbatim>\<open>np.column_stack(x, b)\<close>: no object is constructed.
\<close>

theorem init_raises_TypeError:
  "init C y x b z cet fn rts = Inl (TypeError ''column_stack() takes 1 positional argument'')"
  by (simp add: init_def np_column_stack_def bind_e_def)

text \<open>
  Claim C8. On an object whose \<^verbatim>\<open>optimization_status\<close> is 0, each of \<^verbatim>\<open>get_alpha\<close>,
  \<^verbatim>\<open>get_beta\<close>, \<^verbatim>\<open>get_delta\<close>, \<^verbatim>\<open>get_residual\<close>, \<^verbatim>\<open>get_lamda\<close> and \<^verbatim>\<open>get_frontier\<close> raises the
  "not yet solved" error and leaves the object as it was; in particular \<^verbatim>\<open>get_alpha\<close> does
  so on the object as the assignments of \<^verbatim>\<open>__init__\<close> leave it.
\<close>

theorem accessors_before_optimize:
  assumes "optimization_status self = 0"
  shows "get_alpha C self = (Inl NotOptimized, self) \<and>
         get_beta self = (Inl NotOptimized, self) \<and>
         get_delta C self = (Inl NotOptimized, self) \<and>
         get_residual self = (Inl NotOptimized, self) \<and>
         get_lamda C self = (Inl NotOptimized, self) \<and>
         get_frontier K C self = (Inl NotOptimized, self) \<and>
         get_alpha C (init_attributes cutactive valid x cet fn rts)
           = (Inl NotOptimized, init_attributes cutactive valid x cet fn rts)"
proof -
  have "optimization_status (init_attributes cutactive valid x cet fn rts) = 0"
    by (cases valid) (simp add: init_attributes_def)
  with assms show ?thesis
    by (simp add: get_alpha_def get_beta_def get_delta_def get_residual_def get_lamda_def
        get_frontier_def assert_optimized_def bind_e_def)
qed

theorem accessors_before_optimize_witness:
  "optimization_status example_self = 0 \<and>
   get_alpha example_collaborators example_self = (Inl NotOptimized, example_self) \<and>
   get_beta example_self = (Inl NotOptimized, example_self) \<and>
   get_delta example_collaborators example_self = (Inl NotOptimized, example_self) \<and>
   get_residual example_self = (Inl NotOptimized, example_self) \<and>
   get_lamda example_collaborators example_self = (Inl NotOptimized, example_self) \<and>
   get_frontier pystoned_constants example_collaborators example_self
     = (Inl NotOptimized, example_self)"
proof -
  have h: "optimization_status example_self = 0"
    by (simp add: example_self_def init_attributes_def)
  from accessors_before_optimize [OF h, of example_collaborators pystoned_constants]
  show ?thesis using h by simp
qed


section \<open>Properties of the model builder \<open>weakCNLSxG1\<close>\<close>

lemma py_sum_Inr:
  "(\<And>j. j \<in> set js \<Longrightarrow> \<exists>t. f j = Inr t) \<Longrightarrow> \<exists>e. py_sum f js acc = Inr e"
proof (induction js arbitrary: acc)
  case Nil
  then show ?case by simp
next
  case (Cons j js)
  from Cons.prems [of j] obtain t where t: "f j = Inr t" by auto
  from Cons.IH [of "Add acc t"] Cons.prems obtain e where "py_sum f js (Add acc t) = Inr e"
    by auto
  with t show ?case by (simp add: bind_e_def)
qed

lemma declare_components_Inr:
  assumes "y \<noteq> []" "b \<noteq> []"
  shows "declare_components y x b = Inr (declared (length x) (length (hd y)) (length (hd b)))"
  using assms
  by (cases y; cases b)
    (simp_all add: declare_components_def declared_def item_def step_def Let_def add_set_def
      add_var_def ConcreteModel_def)

lemma objective_rule_Inr:
  assumes "sets m = sets (declared n nj nl)" "variables m = variables (declared n nj nl)"
  shows "\<exists>obj. objective_rule m = Inr obj"
proof -
  have "\<And>i. i \<in> set [0..<n] \<Longrightarrow>
      \<exists>t. bind_e (getvar m ''epsilon'' [i]) (\<lambda>e. Inr (Pow e 2)) = Inr t"
    using assms by (simp add: getvar_def attr_def bind_e_def declared_def)
  from py_sum_Inr [of "[0..<n]" _ "Num 0", OF this] show ?thesis
    using assms by (simp add: objective_rule_def sum_over_def getset_def attr_def bind_e_def
        declared_def)
qed

lemma attach_objective_Inr:
  assumes "sets m = sets (declared n nj nl)" "variables m = variables (declared n nj nl)"
  shows "\<exists>obj. attach_objective m = Inr (m\<lparr>objective := Some obj\<rparr>)"
  using objective_rule_Inr [OF assms] by (auto simp: attach_objective_def step_def)

lemma getsets_I:
  assumes "sets m = sets (declared n nj nl)"
  shows "getsets m [''I''] = Inr [[0..<n]]"
  using assms by (simp add: getset_def attr_def bind_e_def declared_def)

lemma attach_constraint_factory_raises:
  assumes "sets m = sets (declared n nj nl)"
  shows "attach_constraint name [''I''] (Inl e) m = Inl (e, m)"
  using getsets_I [OF assms] by (simp add: attach_constraint_def step_def)

subsection \<open>An unrecognized regime\<close>

text \<open>
  Claim C5 says that an unrecognized combination of error term, direction and returns to
  scale raises a configuration error before any decision variable is created. As stated
  it fails: with the error term \<^verbatim>\<open>'foo'\<close> the constructor raises \<^verbatim>\<open>ValueError\<close> when the five
  variable families are already on the model; and with the direction \<^verbatim>\<open>'both'\<close> the factory
  \<^verbatim>\<open>__afriat_rule\<close> raises nothing and returns a rule, which raises the \<^verbatim>\<open>NameError\<close> of the
  unbound \<^verbatim>\<open>__operator\<close> when it is called, not a configuration error.
\<close>

theorem variables_exist_when_regime_is_rejected:
  "map_sum (\<lambda>(e, m). (e, map fst (variables m))) (\<lambda>_. ())
     (xg_init pystoned_constants [[1]] [[1]] [[1]] [[False]] ''foo'' ''prod'' ''vrs'')
     = Inl (ValueError ''Undefined model parameters.'',
            [''alpha'', ''delta'', ''gamma'', ''epsilon'', ''frontier'']) \<and>
   map_sum id (\<lambda>r. r (declared 1 1 1) [0]) (afriat_rule pystoned_constants ''both'' ''vrs'')
     = Inr (Inl (NameError ''__operator''))"
  by code_simp

text \<open>
  Claim C5, amended. When \<^verbatim>\<open>y\<close> and \<^verbatim>\<open>b\<close> have a first row, and the error term is neither
  of the two recognized ones, or it is the additive one and the returns to scale are
  neither of the two recognized ones, the constructor raises
  \<^verbatim>\<open>ValueError('Undefined model parameters.')\<close> and returns no object. The factory of the
  regression rule raises it: at that moment the model under construction holds the three
  sets, the five variable families and the objective, and no constraint.
\<close>

theorem unrecognized_regime_raises_after_variables:
  assumes y: "y \<noteq> []" and b: "b \<noteq> []"
    and u: "(cet \<noteq> CET_ADDI K \<and> cet \<noteq> CET_MULT K) \<or>
            (cet = CET_ADDI K \<and> rts \<noteq> RTS_VRS K \<and> rts \<noteq> RTS_CRS K)"
  shows "\<exists>m. xg_init K y x b cutactive cet fn rts
              = Inl (ValueError ''Undefined model parameters.'', m) \<and>
             map fst (sets m) = [''I'', ''J'', ''L''] \<and>
             map fst (variables m) = [''alpha'', ''delta'', ''gamma'', ''epsilon'', ''frontier''] \<and>
             objective m \<noteq> None \<and>
             constraints m = []"
proof -
  let ?d = "declared (length x) (length (hd y)) (length (hd b))"
  have d: "declare_components y x b = Inr ?d"
    by (rule declare_components_Inr [OF y b])
  obtain obj where o: "attach_objective ?d = Inr (?d\<lparr>objective := Some obj\<rparr>)"
    using attach_objective_Inr [of ?d] by blast
  let ?m = "?d\<lparr>objective := Some obj\<rparr>"
  have sm: "sets ?m = sets ?d" by simp
  have shape: "map fst (sets ?m) = [''I'', ''J'', ''L'']"
    "map fst (variables ?m) = [''alpha'', ''delta'', ''gamma'', ''epsilon'', ''frontier'']"
    "objective ?m \<noteq> None" "constraints ?m = []"
    by (simp_all add: declared_def)
  have r: "regression_rule K cet rts = Inl (ValueError ''Undefined model parameters.'')"
    using u by (auto simp: regression_rule_def)
  have "xg_init K y x b cutactive cet fn rts
      = Inl (ValueError ''Undefined model parameters.'', ?m)"
    unfolding xg_init_def
    by (simp add: d o r bind_e_def attach_constraint_factory_raises [OF sm])
  with shape show ?thesis by (intro exI [of _ ?m] conjI)
qed

theorem unrecognized_regime_raises_after_variables_witness:
  "[[1::real]] \<noteq> [] \<and>
   ''foo'' \<noteq> CET_ADDI pystoned_constants \<and> ''foo'' \<noteq> CET_MULT pystoned_constants \<and>
   (\<exists>m. xg_init pystoned_constants [[1]] [[1]] [[1]] [[False]] ''foo'' ''prod'' ''vrs''
              = Inl (ValueError ''Undefined model parameters.'', m) \<and>
        map fst (sets m) = [''I'', ''J'', ''L''] \<and>
        map fst (variables m) = [''alpha'', ''delta'', ''gamma'', ''epsilon'', ''frontier''] \<and>
        objective m \<noteq> None \<and>
        constraints m = []) \<and>
   ''addi'' = CET_ADDI pystoned_constants \<and>
   ''drs'' \<noteq> RTS_VRS pystoned_constants \<and> ''drs'' \<noteq> RTS_CRS pystoned_constants \<and>
   (\<exists>m. xg_init pystoned_constants [[1]] [[1]] [[1]] [[False]] ''addi'' ''prod'' ''drs''
              = Inl (ValueError ''Undefined model parameters.'', m) \<and>
        map fst (sets m) = [''I'', ''J'', ''L''] \<and>
        map fst (variables m) = [''alpha'', ''delta'', ''gamma'', ''epsilon'', ''frontier''] \<and>
        objective m \<noteq> None \<and>
        constraints m = [])"
proof -
  have ne: "[[1::real]] \<noteq> []" by simp
  have u1: "(''foo'' \<noteq> CET_ADDI pystoned_constants \<and> ''foo'' \<noteq> CET_MULT pystoned_constants) \<or>
      (''foo'' = CET_ADDI pystoned_constants \<and> ''vrs'' \<noteq> RTS_VRS pystoned_constants \<and>
       ''vrs'' \<noteq> RTS_CRS pystoned_constants)"
    by (simp add: pystoned_constants_def)
  have u2: "(''addi'' \<noteq> CET_ADDI pystoned_constants \<and> ''addi'' \<noteq> CET_MULT pystoned_constants) \<or>
      (''addi'' = CET_ADDI pystoned_constants \<and> ''drs'' \<noteq> RTS_VRS pystoned_constants \<and>
       ''drs'' \<noteq> RTS_CRS pystoned_constants)"
    by (simp add: pystoned_constants_def)
  from unrecognized_regime_raises_after_variables [OF ne ne u1, of "[[1]]" "[[False]]" "''prod''"]
    unrecognized_regime_raises_after_variables [OF ne ne u2, of "[[1]]" "[[False]]" "''prod''"]
  show ?thesis by (simp add: pystoned_constants_def)
qed

subsection \<open>The weak-disposability constraint\<close>

text \<open>
  Claim C6 says that the builder emits one weak-disposability constraint per unit, a
  nonnegativity relation between the undesirable-output coefficients of the cyclic-next
  unit and the unit's own inputs. The constraint is declared over the pairs of units while
  its rule takes one unit: on one unit (additive error term, production frontier, variable
  returns to scale) the constructor raises \<^verbatim>\<open>TypeError\<close> on the first pair, after the
  regression and the Afriat constraints, and no weak-disposability constraint is emitted.
  Called on one unit \<open>i\<close>, the rule returns \<open>alpha[next i] + sum of x[i][j] \<ge> 0\<close> under
  variable returns to scale and \<open>sum of x[i][j] \<ge> 0\<close> under constant returns to scale: no
  coefficient of the next unit multiplies the inputs.
\<close>

theorem disposability_rule_as_written:
  "map_sum (\<lambda>(e, m). (e, map fst (constraints m))) (\<lambda>_. ())
     (xg_init pystoned_constants [[1]] [[1]] [[1]] [[False]] ''addi'' ''prod'' ''vrs'')
     = Inl (TypeError ''rule takes 2 positional arguments'',
            [''regression_rule'', ''afriat_rule'']) \<and>
   map_sum id (\<lambda>r. r (declared 2 1 1) [0, 0]) (disposability_rule pystoned_constants ''vrs'')
     = Inr (Inl (TypeError ''rule takes 2 positional arguments'')) \<and>
   map_sum id (\<lambda>r. r (declared 2 1 1) [0]) (disposability_rule pystoned_constants ''vrs'')
     = Inr (Inr (Rel (GreaterEq (Add (Var ''alpha'' [1]) (Add (Num 0) (Data ''x'' [0, 0])))
                        (Num 0)))) \<and>
   map_sum id (\<lambda>r. r (declared 2 1 1) [0]) (disposability_rule pystoned_constants ''crs'')
     = Inr (Inr (Rel (GreaterEq (Add (Num 0) (Data ''x'' [0, 0])) (Num 0))))"
  by code_simp

text \<open>In fact the constructor returns an object only when there is no unit at all.\<close>

lemma attach_constraint_sets:
  "attach_constraint name set_names factory m = Inr m' \<Longrightarrow> sets m' = sets m"
  by (auto simp: attach_constraint_def step_def add_constraint_def split: sum.splits)

lemma attach_objective_sets: "attach_objective m = Inr m' \<Longrightarrow> sets m' = sets m"
  by (auto simp: attach_objective_def step_def split: sum.splits)

lemma declare_components_sets:
  "declare_components y x b = Inr m \<Longrightarrow> map_of (sets m) ''I'' = Some [0..<length x]"
  by (auto simp: declare_components_def step_def Let_def add_set_def add_var_def
      ConcreteModel_def split: sum.splits)

lemma disposability_never_attached:
  assumes I: "map_of (sets m) ''I'' = Some (i # I)"
  shows "attach_constraint name [''I'', ''I''] (disposability_rule K rts) m \<noteq> Inr m'"
proof
  assume a: "attach_constraint name [''I'', ''I''] (disposability_rule K rts) m = Inr m'"
  have g: "getsets m [''I'', ''I''] = Inr [i # I, i # I]"
    using I by (simp add: getset_def attr_def bind_e_def)
  from a g obtain r cs where r: "disposability_rule K rts = Inr r"
    and c: "Constraint [i # I, i # I] (r m) = Inr cs"
    by (auto simp: attach_constraint_def step_def split: sum.splits)
  from r obtain body where "r = rule1 body"
    by (auto simp: disposability_rule_def split: if_splits)
  then have "r m [i, i] = Inl (TypeError ''rule takes 2 positional arguments'')"
    by (simp add: rule1_def)
  with c show False
    by (simp add: Constraint_def bind_e_def)
qed

lemma xg_init_no_units:
  assumes "xg_init K y x b cutactive cet fn rts = Inr ob"
  shows "x = []"
proof (rule ccontr)
  assume ne: "x \<noteq> []"
  from assms obtain m0 m1 m2 m3 m4 m5 where
    d: "declare_components y x b = Inr m0"
    and o: "attach_objective m0 = Inr m1"
    and r: "attach_constraint ''regression_rule'' [''I''] (regression_rule K cet rts) m1 = Inr m2"
    and l: "(if cet = CET_MULT K
             then attach_constraint ''log_rule'' [''I''] (log_rule K cet rts) m2
             else Inr m2) = Inr m3"
    and a: "attach_constraint ''afriat_rule'' [''I''] (afriat_rule K fn rts) m3 = Inr m4"
    and w: "attach_constraint ''disposability_rule'' [''I'', ''I'']
               (disposability_rule K rts) m4 = Inr m5"
    unfolding xg_init_def by (auto simp: bind_e_Inr)
  have "sets m3 = sets m2"
    using l attach_constraint_sets by (auto split: if_splits)
  with attach_constraint_sets [OF a] attach_constraint_sets [OF r] attach_objective_sets [OF o]
  have "sets m4 = sets m0" by simp
  with declare_components_sets [OF d] have "map_of (sets m4) ''I'' = Some [0..<length x]"
    by simp
  moreover from ne have "[0..<length x] = 0 # [1..<length x]"
    by (simp add: upt_rec)
  ultimately show False
    using disposability_never_attached [of m4 0 "[1..<length x]"] w by simp
qed

subsection \<open>The accessors before a solve\<close>



end
